theory Spec2Isabelle
  imports Complex_Main
begin

section \<open>Python values\<close>

text \<open>
  The module \<^verbatim>\<open>plugins/modules/ise_radius_integration_workflow_manager.py\<close> works on
  dictionaries read with \<^verbatim>\<open>.get\<close>. A parameter of the playbook and a field of a REST
  answer is a scalar of Python: \<^verbatim>\<open>None\<close>, a bool, an int or a str (a sequence of
  code points below 256). Floats are outside the model, and so are ints of more than 4300
  decimal digits, which \<^verbatim>\<open>str\<close> refuses under the default limit of CPython. The two
  list-valued entries
  (\<^verbatim>\<open>cisco_ise_dtos\<close>, \<^verbatim>\<open>external_cisco_ise_ip_addr_dtos\<close>) are kept as typed lists of
  dictionaries beside the scalar fields.
\<close>

datatype pyval = PNone | PBool bool | PInt int | PStr string

datatype exc = AttributeError | TypeError | ValueError | IndexError

type_synonym pydict = "string \<rightharpoonup> pyval"

text \<open>\<^verbatim>\<open>d.get(k)\<close>: a missing key reads as \<^verbatim>\<open>None\<close>.\<close>

definition dget :: "pydict \<Rightarrow> string \<Rightarrow> pyval" where
  "dget d k = (case d k of None \<Rightarrow> PNone | Some v \<Rightarrow> v)"

text \<open>Truth value of a scalar, as \<^verbatim>\<open>if x\<close> and \<^verbatim>\<open>not x\<close> read it.\<close>

fun truthy :: "pyval \<Rightarrow> bool" where
  "truthy PNone = False"
| "truthy (PBool b) = b"
| "truthy (PInt i) = (i \<noteq> 0)"
| "truthy (PStr s) = (s \<noteq> [])"

text \<open>\<^verbatim>\<open>a == b\<close> on scalars: a bool is an int (\<^verbatim>\<open>True == 1\<close>).\<close>

fun py_eq :: "pyval \<Rightarrow> pyval \<Rightarrow> bool" where
  "py_eq (PBool a) (PInt i) = ((if a then 1 else 0) = i)"
| "py_eq (PInt i) (PBool a) = ((if a then 1 else 0) = i)"
| "py_eq x y = (x = y)"

text \<open>\<^verbatim>\<open>str(x)\<close>: decimal digits for an int.\<close>

definition digit_char :: "nat \<Rightarrow> char" where
  "digit_char n = ''0123456789'' ! n"

function str_nat :: "nat \<Rightarrow> string" where
  "str_nat n = (if n < 10 then [digit_char n] else str_nat (n div 10) @ [digit_char (n mod 10)])"
  by pat_completeness auto
termination
  by (relation "measure id") auto

definition str_int :: "int \<Rightarrow> string" where
  "str_int i = (if i < 0 then CHR ''-'' # str_nat (nat (- i)) else str_nat (nat i))"

fun py_str :: "pyval \<Rightarrow> string" where
  "py_str PNone = ''None''"
| "py_str (PBool b) = (if b then ''True'' else ''False'')"
| "py_str (PInt i) = str_int i"
| "py_str (PStr s) = s"

text \<open>
  \<^verbatim>\<open>s.isdigit()\<close> on code points below 256: the ten ASCII digits and the
  superscript digits U+00B2, U+00B3, U+00B9; false on the empty string.
\<close>

definition is_ascii_digit :: "char \<Rightarrow> bool" where
  "is_ascii_digit c = (48 \<le> (of_char c :: nat) \<and> (of_char c :: nat) \<le> 57)"

definition isdigit :: "string \<Rightarrow> bool" where
  "isdigit s = (s \<noteq> [] \<and>
     list_all (\<lambda>c. is_ascii_digit c \<or> (of_char c :: nat) \<in> {178, 179, 185}) s)"

text \<open>
  \<^verbatim>\<open>int(x)\<close>. On a str: surrounding white space is dropped (tab, line feed, vertical tab,
  form feed, carriage return, space, and below 256 the two Unicode spaces U+0085 and
  U+00A0; the separators U+001C to U+001F are not dropped), one sign is allowed, and the
  digits may be grouped by single underscores. Anything else, and a text of more than 4300
  digits (the default limit of CPython), is \<^verbatim>\<open>ValueError\<close>; \<^verbatim>\<open>int(None)\<close> is
  \<^verbatim>\<open>TypeError\<close>.
\<close>

definition is_space :: "char \<Rightarrow> bool" where
  "is_space c = ((of_char c :: nat) \<in> {9, 10, 11, 12, 13, 32, 133, 160})"

definition strip :: "string \<Rightarrow> string" where
  "strip s = rev (dropWhile is_space (rev (dropWhile is_space s)))"

definition digit_val :: "char \<Rightarrow> nat" where
  "digit_val c = (of_char c :: nat) - 48"

fun int_digits :: "nat \<Rightarrow> string \<Rightarrow> nat option" where
  "int_digits acc [] = Some acc"
| "int_digits acc [c] = (if is_ascii_digit c then Some (10 * acc + digit_val c) else None)"
| "int_digits acc (c # d # ds) =
     (if is_ascii_digit c then int_digits (10 * acc + digit_val c) (d # ds)
      else if c = CHR ''_'' \<and> is_ascii_digit d then int_digits (10 * acc + digit_val d) ds
      else None)"

fun unsigned_of_str :: "string \<Rightarrow> nat option" where
  "unsigned_of_str [] = None"
| "unsigned_of_str (c # cs) = (if is_ascii_digit c then int_digits (digit_val c) cs else None)"

definition int_of_str :: "string \<Rightarrow> int option" where
  "int_of_str s =
     (case strip s of
        [] \<Rightarrow> None
      | c # cs \<Rightarrow>
          if length (filter is_ascii_digit (c # cs)) > 4300 then None
          else if c = CHR ''-'' then map_option (\<lambda>n. - int n) (unsigned_of_str cs)
          else if c = CHR ''+'' then map_option int (unsigned_of_str cs)
          else map_option int (unsigned_of_str (c # cs)))"

fun py_int :: "pyval \<Rightarrow> exc + int" where
  "py_int PNone = Inl TypeError"
| "py_int (PBool b) = Inr (if b then 1 else 0)"
| "py_int (PInt i) = Inr i"
| "py_int (PStr s) = (case int_of_str s of None \<Rightarrow> Inl ValueError | Some i \<Rightarrow> Inr i)"

text \<open>
  The number an order comparison with an int literal reads (\<^verbatim>\<open>x < 1\<close>): a str or
  \<^verbatim>\<open>None\<close> on the left is \<^verbatim>\<open>TypeError\<close>.
\<close>

fun py_num :: "pyval \<Rightarrow> exc + int" where
  "py_num (PInt i) = Inr i"
| "py_num (PBool b) = Inr (if b then 1 else 0)"
| "py_num v = Inl TypeError"

text \<open>\<^verbatim>\<open>len(x)\<close>: defined on a str only.\<close>

fun py_len :: "pyval \<Rightarrow> exc + nat" where
  "py_len (PStr s) = Inr (length s)"
| "py_len v = Inl TypeError"

text \<open>\<^verbatim>\<open>s.lower()\<close> on code points below 256.\<close>

definition lower_char :: "char \<Rightarrow> char" where
  "lower_char c =
     (let n = (of_char c :: nat) in
      if (65 \<le> n \<and> n \<le> 90) \<or> (192 \<le> n \<and> n \<le> 222 \<and> n \<noteq> 215) then char_of (n + 32) else c)"

definition lower :: "string \<Rightarrow> string" where
  "lower s = map lower_char s"

text \<open>\<^verbatim>\<open>a in b\<close> on strings: \<open>a\<close> occurs in \<open>b\<close> as a contiguous block.\<close>

fun is_prefix :: "string \<Rightarrow> string \<Rightarrow> bool" where
  "is_prefix [] ys = True"
| "is_prefix (x # xs) [] = False"
| "is_prefix (x # xs) (y # ys) = (x = y \<and> is_prefix xs ys)"

fun str_in :: "string \<Rightarrow> string \<Rightarrow> bool" where
  "str_in a [] = (a = [])"
| "str_in a (y # ys) = (is_prefix a (y # ys) \<or> str_in a ys)"

text \<open>A text between single quotes, as the messages of the module show a value.\<close>

definition quoted :: "string \<Rightarrow> string" where
  "quoted s = [CHR 0x27] @ s @ [CHR 0x27]"


section \<open>The data of the module\<close>

text \<open>
  The playbook entry \<^verbatim>\<open>config["authentication_policy_server"]\<close>: its scalar
  parameters by name, and the two lists.
\<close>

record external_ise =
  external_cisco_ise_ip_addresses :: "pydict list option"
  ise_type :: pyval

record auth_policy_server =
  params :: pydict
  cisco_ise_dtos :: "pydict list option"
  external_cisco_ise_ip_addr_dtos :: "external_ise list option"

text \<open>
  The details of a server as \<^verbatim>\<open>get_auth_server_params\<close> formats them: scalar fields
  and, for an ISE server, the list \<^verbatim>\<open>ciscoIseDtos\<close>.
\<close>

record server_details =
  d_fields :: pydict
  d_ciscoIseDtos :: "pydict list option"

text \<open>
  The dictionary \<^verbatim>\<open>AuthServer\<close> that \<^verbatim>\<open>auth_server_exists\<close> returns and
  \<^verbatim>\<open>get_have_authentication_policy_server\<close> stores under
  \<^verbatim>\<open>have["authenticationPolicyServer"]\<close>.
\<close>

record auth_server_info =
  exists :: bool
  details :: "server_details option"
  server_id :: pyval

text \<open>
  The dictionary \<^verbatim>\<open>auth_server\<close> that \<^verbatim>\<open>get_want_authentication_policy_server\<close>
  builds and stores under \<^verbatim>\<open>want["authenticationPolicyServer"]\<close>; it is the payload
  of the create and of the edit call.
\<close>

record external_dto =
  externalCiscoIseIpAddresses :: "pyval list option"
  dto_type :: "pyval option"

record auth_server =
  scalars :: pydict
  want_ciscoIseDtos :: "pydict list option"
  externalCiscoIseIpAddrDtos :: "external_dto list option"

text \<open>
  What the module sends out, in order: the REST calls of this file and its sleeps.
  \<open>Sleep_task t\<close> is the sleep of the polling loop when \<^verbatim>\<open>max_timeout\<close> is \<open>t\<close>: its
  length is the double \<^verbatim>\<open>max_timeout / 1000\<close>. \<open>Sleep n\<close> is a sleep of \<open>n\<close> seconds.
\<close>

datatype event =
    Add_call auth_server
  | Edit_call auth_server pyval
  | Delete_call pyval
  | Accept_certificate_call pyval pyval
  | Get_servers_call
  | Sleep_task int
  | Sleep int

text \<open>The entry of \<^verbatim>\<open>result["response"][0]["authenticationPolicyServer"]["response"]\<close>
  for one address.\<close>

record response_entry =
  entry_text :: "string option"
  created_details :: "auth_server option"
  catalyst_params :: "server_details option"
  entry_Id :: "pyval option"
  entry_Task_Id :: "pyval option"

definition empty_entry :: response_entry where
  "empty_entry = \<lparr>entry_text = None, created_details = None, catalyst_params = None,
     entry_Id = None, entry_Task_Id = None\<rparr>"

text \<open>
  The attributes of the \<^verbatim>\<open>IseRadiusIntegration\<close> object that the methods read and
  write. \<open>max_timeout\<close> is the parameter \<^verbatim>\<open>dnac_api_task_timeout\<close>, in seconds;
  \<open>changed\<close> is \<^verbatim>\<open>result['changed']\<close>; \<open>have_auth\<close> and
  \<open>want_auth\<close> are \<^verbatim>\<open>have["authenticationPolicyServer"]\<close> and
  \<^verbatim>\<open>want["authenticationPolicyServer"]\<close>; \<open>want_trusted_server\<close> and
  \<open>want_ise_integration_wait_time\<close> are the two other keys of \<^verbatim>\<open>self.want\<close>, read
  with \<^verbatim>\<open>.get\<close> (\<open>PNone\<close> when absent). Logging is left out: it changes nothing here.
\<close>

record module_state =
  max_timeout :: int
  status :: string
  msg :: pyval
  changed :: bool
  validation_string :: string
  have_auth :: "auth_server_info option"
  want_auth :: "auth_server option"
  want_trusted_server :: pyval
  want_ise_integration_wait_time :: pyval
  result_response :: "pyval \<rightharpoonup> response_entry"
  result_msg :: "pyval \<rightharpoonup> string"
  events :: "event list"

text \<open>
  How a method ends: it returns \<^verbatim>\<open>self\<close>, the module exits through
  \<^verbatim>\<open>fail_json\<close>, or an exception of Python escapes. \<open>Unfinished\<close> is the polling loop
  still running when the observations of the environment end; every outcome carries the
  state reached.
\<close>

datatype outcome =
    Returned module_state
  | Exited module_state
  | Crashed exc module_state
  | Unfinished module_state

fun final :: "outcome \<Rightarrow> module_state" where
  "final (Returned st) = st"
| "final (Exited st) = st"
| "final (Crashed e st) = st"
| "final (Unfinished st) = st"

text \<open>
  A stage inside a method: it goes on with a value, it sets \<^verbatim>\<open>self.msg\<close>, sets
  \<^verbatim>\<open>self.status = "failed"\<close> and returns, or it raises.
\<close>

datatype 'a step = Next 'a | Failed string | Raised exc

fun and_then :: "'a step \<Rightarrow> ('a \<Rightarrow> 'b step) \<Rightarrow> 'b step" where
  "and_then (Next a) f = f a"
| "and_then (Failed m) f = Failed m"
| "and_then (Raised e) f = Raised e"

fun lift_exc :: "exc + 'a \<Rightarrow> 'a step" where
  "lift_exc (Inl e) = Raised e"
| "lift_exc (Inr a) = Next a"

section \<open>The desired state: get_want_authentication_policy_server\<close>

text \<open>
  The method (lines 730 to 1099) is one chain of checks on the playbook entry. Each
  definition below is one stretch of it, in the order of the source; \<open>hv\<close> is
  \<^verbatim>\<open>self.have.get("authenticationPolicyServer")\<close>, \<open>p\<close> the scalar parameters of the
  playbook entry and \<open>a\<close> the scalar part of the local dictionary \<^verbatim>\<open>auth_server\<close>.
\<close>

text \<open>\<^verbatim>\<open>auth_server_details.get(k)\<close>: an attribute error when the details are \<^verbatim>\<open>None\<close>.\<close>

definition details_get :: "auth_server_info \<Rightarrow> string \<Rightarrow> pyval step" where
  "details_get hv k =
     (case details hv of None \<Rightarrow> Raised AttributeError | Some d \<Rightarrow> Next (dget (d_fields d) k))"

text \<open>Lines 749 to 763: \<^verbatim>\<open>isIseEnabled\<close> and \<^verbatim>\<open>ipAddress\<close>.\<close>

definition want_server_type :: "auth_server_info \<Rightarrow> pydict \<Rightarrow> pydict step" where
  "want_server_type hv p =
     and_then
       (if \<not> exists hv then
          (if dget p ''server_type'' \<notin> {PStr ''ISE'', PStr ''AAA'', PNone}
           then Failed (''The server_type should either be ISE or AAA but not '' @
                        py_str (dget p ''server_type'') @ ''.'')
           else Next (PBool (dget p ''server_type'' = PStr ''ISE'')))
        else details_get hv ''isIseEnabled'')
       (\<lambda>ise. Next [''isIseEnabled'' \<mapsto> ise, ''ipAddress'' \<mapsto> dget p ''server_ip_address''])"

text \<open>Lines 767 to 787: the shared secret, checked only when the server does not exist.\<close>

definition want_shared_secret :: "auth_server_info \<Rightarrow> pydict \<Rightarrow> pydict \<Rightarrow> pydict step" where
  "want_shared_secret hv p a =
     (if \<not> exists hv then
        (if \<not> truthy (dget p ''shared_secret'')
         then Failed ''Missing parameter 'shared_secret' is required.''
         else if length (py_str (dget p ''shared_secret'')) < 4
               \<or> length (py_str (dget p ''shared_secret'')) > 100
         then Failed ''The 'shared_secret' should contain between 4 and 100 characters.''
         else if list_ex (\<lambda>c. c \<in> set (py_str (dget p ''shared_secret''))) '' ?<''
         then Failed ''The 'shared_secret' should not contain spaces or the characters '?', '<'.''
         else Next (a(''sharedSecret'' \<mapsto> PStr (py_str (dget p ''shared_secret'')))))
      else Next a)"

text \<open>Lines 789 to 804: the protocol, and the fixed port 49.\<close>

definition want_protocol :: "auth_server_info \<Rightarrow> pydict \<Rightarrow> pydict \<Rightarrow> pydict step" where
  "want_protocol hv p a =
     (if dget p ''protocol'' \<notin> {PStr ''RADIUS'', PStr ''TACACS'', PStr ''RADIUS_TACACS'', PNone}
      then Failed (''protocol should either be ['RADIUS', 'TACACS', 'RADIUS_TACACS'].'' @
                   ''It should not be '' @ py_str (dget p ''protocol''))
      else and_then
        (if dget p ''protocol'' \<noteq> PNone then Next (dget p ''protocol'')
         else if \<not> exists hv then Next (PStr ''RADIUS'')
         else details_get hv ''protocol'')
        (\<lambda>protocol. Next (a(''protocol'' \<mapsto> protocol, ''port'' \<mapsto> PInt 49))))"

text \<open>Lines 806 to 846: the encryption scheme and its two keys, for a new server only.\<close>

definition want_encryption :: "auth_server_info \<Rightarrow> pydict \<Rightarrow> pydict \<Rightarrow> pydict step" where
  "want_encryption hv p a =
     (if \<not> exists hv then
        (if dget p ''encryption_scheme'' \<notin> {PStr ''KEYWRAP'', PStr ''RADSEC'', PNone}
         then Failed (''The encryption_scheme should be in ['KEYWRAP', 'RADSEC']. '' @
                      ''It should not be '' @ py_str (dget p ''encryption_scheme'') @ ''.'')
         else
           (let a1 = (if truthy (dget p ''encryption_scheme'')
                      then a(''encryptionScheme'' \<mapsto> dget p ''encryption_scheme'') else a)
            in if dget p ''encryption_scheme'' = PStr ''KEYWRAP'' then
                 (if \<not> truthy (dget p ''message_authenticator_code_key'')
                  then Failed ''The 'message_authenticator_code_key' should not be empty if the encryption_scheme is 'KEYWRAP'.''
                  else if length (py_str (dget p ''message_authenticator_code_key'')) \<noteq> 20
                  then Failed ''The 'message_authenticator_code_key' should be exactly 20 characters.''
                  else if \<not> truthy (dget p ''encryption_key'')
                  then Failed ''The encryption_key should not be empty if encryption_scheme is 'KEYWRAP'.''
                  else if length (py_str (dget p ''encryption_key'')) \<noteq> 16
                  then Failed ''The 'encryption_key' must be 16 characters long. It may contain alphanumeric and special characters.''
                  else Next (a1(''messageKey'' \<mapsto> PStr (py_str (dget p ''message_authenticator_code_key'')),
                                ''encryptionKey'' \<mapsto> PStr (py_str (dget p ''encryption_key'')))))
               else Next a1))
      else Next a)"

text \<open>
  Lines 848 to 865: the authentication port of a new server is the playbook's (1812 by
  default) and is checked; the one of an existing server is the one of the details.
\<close>

definition want_authentication_port ::
  "auth_server_info \<Rightarrow> pydict \<Rightarrow> pydict \<Rightarrow> pydict step" where
  "want_authentication_port hv p a =
     (if \<not> exists hv then
        (let authentication_port =
               (if \<not> truthy (dget p ''authentication_port'') then PInt 1812
                else dget p ''authentication_port'')
         in if \<not> isdigit (py_str authentication_port)
            then Failed ''The 'authentication_port' should contain only digits.''
            else and_then (lift_exc (py_num authentication_port))
              (\<lambda>n. if n < 1 \<or> n > 65535
                    then Failed ''The 'authentication_port' should be from 1 to 65535.''
                    else Next (a(''authenticationPort'' \<mapsto> authentication_port))))
      else and_then (details_get hv ''authenticationPort'')
             (\<lambda>v. Next (a(''authenticationPort'' \<mapsto> v))))"

text \<open>Lines 867 to 884: the accounting port, in the same way with the default 1813.\<close>

definition want_accounting_port ::
  "auth_server_info \<Rightarrow> pydict \<Rightarrow> pydict \<Rightarrow> pydict step" where
  "want_accounting_port hv p a =
     (if \<not> exists hv then
        (let accounting_port =
               (if \<not> truthy (dget p ''accounting_port'') then PInt 1813
                else dget p ''accounting_port'')
         in if \<not> isdigit (py_str accounting_port)
            then Failed ''The 'accounting_port' should contain only digits.''
            else and_then (lift_exc (py_num accounting_port))
              (\<lambda>n. if n < 1 \<or> n > 65535
                    then Failed ''The 'accounting_port' should be from 1 to 65535.''
                    else Next (a(''accountingPort'' \<mapsto> accounting_port))))
      else and_then (details_get hv ''accountingPort'')
             (\<lambda>v. Next (a(''accountingPort'' \<mapsto> v))))"

text \<open>Lines 886 to 904: the retries. Only \<^verbatim>\<open>ValueError\<close> is caught.\<close>

definition want_retries :: "auth_server_info \<Rightarrow> pydict \<Rightarrow> pydict \<Rightarrow> pydict step" where
  "want_retries hv p a =
     (if \<not> truthy (dget p ''retries'') then
        (if \<not> exists hv then Next (a(''retries'' \<mapsto> PStr ''3''))
         else and_then (details_get hv ''retries'') (\<lambda>v. Next (a(''retries'' \<mapsto> v))))
      else
        (case py_int (dget p ''retries'') of
           Inl ValueError \<Rightarrow> Failed ''The 'retries' should contain only from 0-9.''
         | Inl e \<Rightarrow> Raised e
         | Inr retries_int \<Rightarrow>
             if retries_int < 1 \<or> retries_int > 3
             then Failed ''The 'retries' should be from 1 to 3.''
             else Next (a(''retries'' \<mapsto> PStr (py_str (dget p ''retries''))))))"

text \<open>Lines 906 to 927: the timeout.\<close>

definition want_timeout :: "auth_server_info \<Rightarrow> pydict \<Rightarrow> pydict \<Rightarrow> pydict step" where
  "want_timeout hv p a =
     and_then
       (if \<not> exists hv then Next ''4''
        else and_then (details_get hv ''timeoutSeconds'') (\<lambda>v. Next (py_str v)))
       (\<lambda>default_timeout.
          if dget p ''timeout'' = PNone then Next (a(''timeoutSeconds'' \<mapsto> PStr default_timeout))
          else
            (case py_int (dget p ''timeout'') of
               Inl ValueError \<Rightarrow> Failed ''The 'time_out' must contain only digits.''
             | Inl e \<Rightarrow> Raised e
             | Inr timeout_int \<Rightarrow>
                 if timeout_int < 2 \<or> timeout_int > 20
                 then Failed ''The 'timeout' should be from 2 to 20.''
                 else Next (a(''timeoutSeconds'' \<mapsto> PStr (py_str (dget p ''timeout''))))))"

text \<open>
  Lines 929 to 937: the role. \<^verbatim>\<open>auth_policy_server.get("role", "secondary")\<close> takes
  the default only when the key is absent.
\<close>

definition want_role :: "auth_server_info \<Rightarrow> pydict \<Rightarrow> pydict \<Rightarrow> pydict step" where
  "want_role hv p a =
     and_then
       (if \<not> exists hv then Next (case p ''role'' of None \<Rightarrow> PStr ''secondary'' | Some v \<Rightarrow> v)
        else details_get hv ''role'')
       (\<lambda>role. Next (a(''role'' \<mapsto> role)))"

text \<open>Lines 745 to 937 together: the scalar fields of \<^verbatim>\<open>auth_server\<close>.\<close>

definition want_scalars :: "auth_server_info \<Rightarrow> pydict \<Rightarrow> pydict step" where
  "want_scalars hv p =
     and_then (want_server_type hv p) (\<lambda>a.
     and_then (want_shared_secret hv p a) (\<lambda>a.
     and_then (want_protocol hv p a) (\<lambda>a.
     and_then (want_encryption hv p a) (\<lambda>a.
     and_then (want_authentication_port hv p a) (\<lambda>a.
     and_then (want_accounting_port hv p a) (\<lambda>a.
     and_then (want_retries hv p a) (\<lambda>a.
     and_then (want_timeout hv p a) (\<lambda>a.
     want_role hv p a))))))))"

text \<open>
  \<^verbatim>\<open>auth_server_details.get("ciscoIseDtos")[0].get(k)\<close>: subscripting \<^verbatim>\<open>None\<close> is a
  type error, the first element of an empty list an index error.
\<close>

definition have_ise_dto :: "auth_server_info \<Rightarrow> string \<Rightarrow> pyval step" where
  "have_ise_dto hv k =
     (case details hv of
        None \<Rightarrow> Raised AttributeError
      | Some d \<Rightarrow>
          (case d_ciscoIseDtos d of
             None \<Rightarrow> Raised TypeError
           | Some [] \<Rightarrow> Raised IndexError
           | Some (x # xs) \<Rightarrow> Next (dget x k)))"

text \<open>Lines 950 to 1021: one pass of the loop over \<^verbatim>\<open>cisco_ise_dtos\<close>.\<close>

definition want_ise_credential :: "auth_server_info \<Rightarrow> pydict \<Rightarrow> pydict step" where
  "want_ise_credential hv ise_credential =
     and_then
       (if \<not> truthy (dget ise_credential ''user_name'') then
          (if \<not> exists hv
           then Failed ''Missing parameter 'user_name' is required when server_type is ISE.''
           else have_ise_dto hv ''userName'')
        else Next (dget ise_credential ''user_name''))
       (\<lambda>user_name.
          if \<not> truthy (dget ise_credential ''password'')
          then Failed ''Missing parameter 'password' is required when server_type is ISE.''
          else and_then (lift_exc (py_len (dget ise_credential ''password'')))
            (\<lambda>n. if \<not> (4 \<le> n \<and> n \<le> 127) then Failed ''''
                  else and_then
                    (if \<not> truthy (dget ise_credential ''fqdn'') then
                       (if \<not> exists hv
                        then Failed ''Missing parameter 'fqdn' is required when server_type is ISE.''
                        else have_ise_dto hv ''fqdn'')
                     else Next (dget ise_credential ''fqdn''))
                    (\<lambda>fqdn.
                       if \<not> truthy (dget ise_credential ''ip_address'')
                       then Failed ''Missing parameter 'ip_address' is required when server_type is ISE.''
                       else and_then
                         (if \<not> exists hv then Next (PStr ''ersadmin'')
                          else have_ise_dto hv ''subscriberName'')
                         (\<lambda>subscriber.
                            let d0 = [''userName'' \<mapsto> user_name,
                                      ''password'' \<mapsto> dget ise_credential ''password'',
                                      ''fqdn'' \<mapsto> fqdn,
                                      ''ipAddress'' \<mapsto> dget ise_credential ''ip_address'',
                                      ''subscriberName'' \<mapsto> subscriber];
                                d1 = (if truthy (dget ise_credential ''description'')
                                      then d0(''description'' \<mapsto> dget ise_credential ''description'')
                                      else d0);
                                d2 = (if truthy (dget ise_credential ''ssh_key'')
                                      then d1(''sshkey'' \<mapsto> PStr (py_str (dget ise_credential ''ssh_key'')))
                                      else d1)
                            in Next d2))))"

text \<open>Lines 947 to 1021: the loop; the first failing credential ends the method.\<close>

fun want_ise_credentials :: "auth_server_info \<Rightarrow> pydict list \<Rightarrow> pydict list step" where
  "want_ise_credentials hv [] = Next []"
| "want_ise_credentials hv (c # cs) =
     and_then (want_ise_credential hv c) (\<lambda>d.
     and_then (want_ise_credentials hv cs) (\<lambda>ds. Next (d # ds)))"

text \<open>Lines 1023 to 1039: \<^verbatim>\<open>pxgridEnabled\<close> and \<^verbatim>\<open>useDnacCertForPxgrid\<close>.\<close>

definition want_pxgrid :: "auth_server_info \<Rightarrow> pydict \<Rightarrow> pydict \<Rightarrow> pydict step" where
  "want_pxgrid hv p a =
     and_then
       (if dget p ''pxgrid_enabled'' = PNone then
          (if exists hv then details_get hv ''pxgridEnabled'' else Next (PBool True))
        else Next (dget p ''pxgrid_enabled''))
       (\<lambda>pxgrid_enabled.
     and_then
       (if dget p ''use_dnac_cert_for_pxgrid'' = PNone then
          (if exists hv then details_get hv ''useDnacCertForPxgrid'' else Next (PBool False))
        else Next (dget p ''use_dnac_cert_for_pxgrid''))
       (\<lambda>use_dnac_cert_for_pxgrid.
          Next (a(''pxgridEnabled'' \<mapsto> pxgrid_enabled,
                  ''useDnacCertForPxgrid'' \<mapsto> use_dnac_cert_for_pxgrid))))"

text \<open>
  Lines 1046 to 1066: the loop over \<^verbatim>\<open>external_cisco_ise_ip_addr_dtos\<close>. \<open>pos\<close> is
  \<^verbatim>\<open>position_ise_addresses\<close>, \<open>acc\<close> the list built so far; an element without addresses
  appends nothing, so a later subscript \<^verbatim>\<open>[position_ise_addresses]\<close> can be out of range.
\<close>

definition set_dto :: "external_dto list \<Rightarrow> nat \<Rightarrow> (external_dto \<Rightarrow> external_dto)
    \<Rightarrow> external_dto list step" where
  "set_dto acc pos f = (if pos < length acc then Next (acc[pos := f (acc ! pos)]) else Raised IndexError)"

fun want_external :: "external_ise list \<Rightarrow> nat \<Rightarrow> external_dto list \<Rightarrow> external_dto list step" where
  "want_external [] pos acc = Next acc"
| "want_external (e # es) pos acc =
     and_then
       (case external_cisco_ise_ip_addresses e of
          None \<Rightarrow> Next acc
        | Some [] \<Rightarrow> Next acc
        | Some (x # xs) \<Rightarrow>
            set_dto (acc @ [\<lparr>externalCiscoIseIpAddresses = None, dto_type = None\<rparr>]) pos
              (\<lambda>d. d\<lparr>externalCiscoIseIpAddresses :=
                         Some (map (\<lambda>external_ip_address. dget external_ip_address ''external_ip_address'')
                                 (x # xs))\<rparr>))
       (\<lambda>acc1.
     and_then
       (if truthy (ise_type e) then set_dto acc1 pos (\<lambda>d. d\<lparr>dto_type := Some (ise_type e)\<rparr>)
        else Next acc1)
       (\<lambda>acc2. want_external es (Suc pos) acc2))"

text \<open>Lines 939 to 1066: what an ISE server adds to \<^verbatim>\<open>auth_server\<close>.\<close>

definition want_ise :: "auth_server_info \<Rightarrow> auth_policy_server \<Rightarrow> pydict \<Rightarrow> auth_server step" where
  "want_ise hv aps a =
     (case cisco_ise_dtos aps of
        None \<Rightarrow> Failed (''Missing parameter 'cisco_ise_dtos' '' @ ''required when server_type is 'ISE'.'')
      | Some [] \<Rightarrow> Failed (''Missing parameter 'cisco_ise_dtos' '' @ ''required when server_type is 'ISE'.'')
      | Some (c # cs) \<Rightarrow>
          and_then (want_ise_credentials hv (c # cs)) (\<lambda>dtos.
          and_then (want_pxgrid hv (params aps) a) (\<lambda>a1.
          and_then
            (case external_cisco_ise_ip_addr_dtos aps of
               None \<Rightarrow> Next None
             | Some [] \<Rightarrow> Next None
             | Some (e # es) \<Rightarrow> and_then (want_external (e # es) 0 []) (\<lambda>l. Next (Some l)))
            (\<lambda>ext. Next \<lparr>scalars = a1, want_ciscoIseDtos = Some dtos,
                           externalCiscoIseIpAddrDtos = ext\<rparr>))))"

text \<open>Lines 1068 to 1072: \<^verbatim>\<open>trusted_server\<close>, true by default.\<close>

definition want_trusted :: "pydict \<Rightarrow> pyval" where
  "want_trusted p = (if dget p ''trusted_server'' = PNone then PBool True else dget p ''trusted_server'')"

text \<open>Lines 1076 to 1090: \<^verbatim>\<open>ise_integration_wait_time\<close>, 20 by default.\<close>

definition want_wait_time :: "pydict \<Rightarrow> pyval step" where
  "want_wait_time p =
     (if dget p ''ise_integration_wait_time'' = PNone then Next (PInt 20)
      else
        (case py_int (dget p ''ise_integration_wait_time'') of
           Inl ValueError \<Rightarrow> Failed ''The 'ise_integration_wait_time' should contain only digits.''
         | Inl e \<Rightarrow> Raised e
         | Inr ise_integration_wait_time_int \<Rightarrow>
             if ise_integration_wait_time_int < 1 \<or> ise_integration_wait_time_int > 120
             then Failed ''The ise_integration_wait_time should be from 1 to 120 seconds.''
             else Next (dget p ''ise_integration_wait_time'')))"

text \<open>A failing return: \<^verbatim>\<open>self.msg = m; self.status = "failed"; return self\<close>.\<close>

definition fail_with :: "string \<Rightarrow> module_state \<Rightarrow> outcome" where
  "fail_with m st = Returned (st\<lparr>msg := PStr m, status := ''failed''\<rparr>)"

text \<open>Lines 1094 to 1099: the end of the method.\<close>

definition want_done :: "auth_server \<Rightarrow> module_state \<Rightarrow> outcome" where
  "want_done srv st =
     Returned (st\<lparr>want_auth := Some srv,
                  msg := PStr ''Collecting the Authentication and Policy Server details from the playbook'',
                  status := ''success''\<rparr>)"

definition get_want_authentication_policy_server ::
  "auth_policy_server \<Rightarrow> module_state \<Rightarrow> outcome" where
  "get_want_authentication_policy_server aps st =
     (case have_auth st of
        None \<Rightarrow> Crashed AttributeError st
      | Some hv \<Rightarrow>
          (case want_scalars hv (params aps) of
             Failed m \<Rightarrow> fail_with m st
           | Raised e \<Rightarrow> Crashed e st
           | Next a \<Rightarrow>
               if truthy (dget a ''isIseEnabled'') then
                 (case want_ise hv aps a of
                    Failed m \<Rightarrow> fail_with m st
                  | Raised e \<Rightarrow> Crashed e st
                  | Next srv \<Rightarrow>
                      (let st1 = st\<lparr>want_trusted_server := want_trusted (params aps)\<rparr>
                       in case want_wait_time (params aps) of
                            Failed m \<Rightarrow> fail_with m st1
                          | Raised e \<Rightarrow> Crashed e st1
                          | Next w \<Rightarrow>
                              want_done srv (st1\<lparr>want_ise_integration_wait_time := w\<rparr>)))
               else want_done \<lparr>scalars = a, want_ciscoIseDtos = None,
                                externalCiscoIseIpAddrDtos = None\<rparr> st))"

section \<open>Comparing the current and the desired state\<close>

text \<open>
  Modelled from the spec: \<^verbatim>\<open>DnacBase.check_return_status\<close>, of
  \<^verbatim>\<open>plugins/module_utils/dnac.py\<close>, which is not among the sources. The spec gives the
  module no failure recovery beyond "fail and report a message": with the status
  \<^verbatim>\<open>"failed"\<close> the module ends there through \<^verbatim>\<open>fail_json\<close>, otherwise the run goes on.
\<close>

definition check_return_status :: "module_state \<Rightarrow> outcome" where
  "check_return_status st = (if status st = ''failed'' then Exited st else Returned st)"

text \<open>Lines 539 to 564: the pairs of fields that decide whether an update is needed.\<close>

definition get_obj_params :: "string \<Rightarrow> (string \<times> string) list" where
  "get_obj_params get_object =
     (if get_object = ''authenticationPolicyServer''
      then [(''protocol'', ''protocol''), (''retries'', ''retries''),
            (''timeoutSeconds'', ''timeoutSeconds'')]
      else [])"

definition authentication_policy_server_obj_params :: "(string \<times> string) list" where
  "authentication_policy_server_obj_params = get_obj_params ''authenticationPolicyServer''"

text \<open>
  Lines 505 to 537. \<^verbatim>\<open>dnac_compare_equality\<close> is imported from
  \<^verbatim>\<open>plugins/module_utils/dnac.py\<close>, which is not among the sources: it is a parameter.
\<close>

definition requires_update ::
  "(pyval \<Rightarrow> pyval \<Rightarrow> bool) \<Rightarrow> pydict \<Rightarrow> pydict \<Rightarrow> (string \<times> string) list \<Rightarrow> bool" where
  "requires_update dnac_compare_equality current_obj requested_obj obj_params =
     list_ex (\<lambda>(dnac_param, ansible_param).
                \<not> dnac_compare_equality (dget current_obj dnac_param)
                                         (dget requested_obj ansible_param))
             obj_params"

text \<open>
  Lines 1240 to 1251: the loop over \<^verbatim>\<open>update_params\<close>. It returns the item it
  rejects, if any, and the desired fields as the loop leaves them.
\<close>

definition update_params :: "string list" where
  "update_params = [''authenticationPort'', ''accountingPort'', ''role'']"

fun format_update_params :: "pydict \<Rightarrow> pydict \<Rightarrow> string list \<Rightarrow> string option \<times> pydict" where
  "format_update_params have_auth_server want_auth_server [] = (None, want_auth_server)"
| "format_update_params have_auth_server want_auth_server (item # items) =
     (if dget want_auth_server item = PNone
      then format_update_params have_auth_server
             (want_auth_server(item \<mapsto> dget have_auth_server item)) items
      else if \<not> py_eq (dget have_auth_server item) (dget want_auth_server item)
      then (Some item, want_auth_server)
      else format_update_params have_auth_server want_auth_server items)"

text \<open>
  Lines 1227 to 1265. \<^verbatim>\<open>want_auth_server\<close> is the dictionary stored in
  \<^verbatim>\<open>self.want\<close> and is changed in place, so the state gets the changed fields.
\<close>

definition format_payload_for_update ::
  "server_details \<Rightarrow> auth_server \<Rightarrow> module_state \<Rightarrow> module_state" where
  "format_payload_for_update have_auth_server want_auth_server st =
     (case format_update_params (d_fields have_auth_server) (scalars want_auth_server) update_params of
        (Some item, w) \<Rightarrow>
          st\<lparr>want_auth := Some (want_auth_server\<lparr>scalars := w\<rparr>),
             msg := PStr (''Update does not support modifying '['authenticationPort', 'accountingPort', 'role']'. Here you are trying to update '' @
                          quoted item @ ''.''),
             status := ''failed''\<rparr>
      | (None, w) \<Rightarrow>
          if \<not> py_eq (dget (d_fields have_auth_server) ''protocol'') (dget w ''protocol'')
             \<and> dget w ''protocol'' \<noteq> PStr ''RADIUS_TACACS''
          then st\<lparr>want_auth := Some (want_auth_server\<lparr>scalars := w\<rparr>),
                  msg := PStr (quoted ''protocol'' @ '' can only be updated to 'RADIUS_TACACS' not from '' @
                               quoted (py_str (dget (d_fields have_auth_server) ''protocol'')) @ '' to '' @
                               quoted (py_str (dget w ''protocol''))),
                  status := ''failed''\<rparr>
          else st\<lparr>want_auth := Some (want_auth_server\<lparr>scalars := w\<rparr>),
                  msg := PStr ''Successfully formatted the parameter of the payload for updating the authentication and policy server.'',
                  status := ''success''\<rparr>)"

section \<open>The remote system\<close>

text \<open>
  What the run receives from outside, as data. A REST answer is given by the
  dictionary under its key \<^verbatim>\<open>"response"\<close> (\<open>None\<close> when the answer has none).
  \<open>task_polls\<close> lists, for each pass of a polling loop, the value of
  \<^verbatim>\<open>end_time - start_time\<close> the pass computes and what \<^verbatim>\<open>get_task_details\<close> returns
  in it. That value is a double, the result of the subtraction of the two clock reads as
  Python rounds it; it is given as the rational number it is, and the model does no
  arithmetic on it. \<open>current_server\<close> is what \<^verbatim>\<open>auth_server_exists\<close> returns in
  \<^verbatim>\<open>get_have\<close>, \<open>created_server\<close> what it returns after a creation, and
  \<open>ise_servers\<close> the answer to the query for the ISE servers with, inside, the element
  \<^verbatim>\<open>get_dict_result\<close> picks for the address. \<^verbatim>\<open>get_dict_result\<close>,
  \<^verbatim>\<open>get_task_details\<close> and \<^verbatim>\<open>check_task_response_status\<close> belong to
  \<^verbatim>\<open>plugins/module_utils/dnac.py\<close>, which is not among the sources: what they
  return is part of this record.
\<close>

record environment =
  current_server :: auth_server_info
  add_response :: "pydict option"
  edit_response :: "pydict option"
  delete_response :: "pydict option"
  task_polls :: "(rat \<times> pydict option) list"
  created_server :: auth_server_info
  ise_servers :: "pydict option option"
  delete_task_status :: string
  delete_task_msg :: pyval
  delete_task_changed :: bool

definition emit :: "event \<Rightarrow> module_state \<Rightarrow> module_state" where
  "emit e st = st\<lparr>events := events st @ [e]\<rparr>"

section \<open>Polling the task: check_auth_server_response_status\<close>

text \<open>
  Lines 1209 to 1214: the first string of the validation set that occurs in the
  lower-cased progress. \<^verbatim>\<open>.lower()\<close> is called in the first pass of the
  \<^verbatim>\<open>for\<close>, so a progress that is no str raises an attribute error unless the set is
  empty.
\<close>

fun match_validation :: "string list \<Rightarrow> pyval \<Rightarrow> exc + string option" where
  "match_validation [] progress = Inr None"
| "match_validation (v # rest) (PStr s) =
     (if str_in v (lower s) then Inr (Some v) else match_validation rest (PStr s))"
| "match_validation (v # rest) progress = Inl AttributeError"

text \<open>
  Lines 1190 to 1223: the loop. One element of the list is one pass; the result is
  \<open>Unfinished\<close> when the list ends before the loop does. \<^verbatim>\<open>time.sleep\<close> refuses a
  negative length with a value error.
\<close>

fun poll_task :: "pyval \<Rightarrow> string list \<Rightarrow> string \<Rightarrow> (rat \<times> pydict option) list
    \<Rightarrow> module_state \<Rightarrow> outcome" where
  "poll_task task_id validation_string_set api_name [] st = Unfinished st"
| "poll_task task_id validation_string_set api_name ((elapsed, task_details) # rest) st =
     (if elapsed \<ge> of_int (max_timeout st)
      then Returned (st\<lparr>msg := PStr (''Max timeout of '' @ str_int (max_timeout st) @
                                   '' sec has reached for the execution id '' @
                                   quoted (py_str task_id) @ ''.'' @
                                   ''Exiting the loop due to unexpected API '' @
                                   quoted api_name @ '' status.''),
                               status := ''failed''\<rparr>)
      else
        (case task_details of
           None \<Rightarrow> Crashed AttributeError st
         | Some td \<Rightarrow>
             if dget td ''isError'' = PBool True
             then Returned (st\<lparr>msg := PStr (if truthy (dget td ''failureReason'')
                                                   then py_str (dget td ''failureReason'')
                                                   else py_str (dget td ''progress'')),
                                      status := ''failed''\<rparr>)
             else
               (case match_validation validation_string_set (dget td ''progress'') of
                  Inl e \<Rightarrow> Crashed e st
                | Inr found \<Rightarrow>
                    (let st1 = (case found of
                                  None \<Rightarrow> st
                                | Some v \<Rightarrow>
                                    st\<lparr>changed := True, validation_string := v,
                                       status := ''success''\<rparr>)
                     in if changed st1 then Returned st1
                        else if max_timeout st < 0 then Crashed ValueError st1
                        else poll_task task_id validation_string_set api_name rest
                               (emit (Sleep_task (max_timeout st)) st1)))))"

text \<open>Lines 1167 to 1225.\<close>

definition check_auth_server_response_status ::
  "environment \<Rightarrow> pydict option \<Rightarrow> string list \<Rightarrow> string \<Rightarrow> module_state \<Rightarrow> outcome" where
  "check_auth_server_response_status env response validation_string_set api_name st =
     (case response of
        None \<Rightarrow> Crashed AttributeError st
      | Some r \<Rightarrow>
          if dget r ''errorcode'' \<noteq> PNone
          then Returned (st\<lparr>msg := dget r ''detail'', status := ''failed''\<rparr>)
          else poll_task (dget r ''taskId'') validation_string_set api_name
                 (task_polls env) st)"

section \<open>Creating and updating: update_auth_policy_server\<close>

text \<open>
  Lines 1121 to 1165. The look-up and the REST call stand in a \<^verbatim>\<open>try\<close> that catches
  every exception. With an empty id the method sets the message and then calls
  \<^verbatim>\<open>str(self.msg, "CRITICAL")\<close>, a type error that the \<^verbatim>\<open>except\<close> catches before the
  status is set.
\<close>

definition accept_cisco_ise_server_certificate ::
  "environment \<Rightarrow> pyval \<Rightarrow> pyval \<Rightarrow> module_state \<Rightarrow> module_state" where
  "accept_cisco_ise_server_certificate env ipAddress trusted_server st =
     (let st1 = emit Get_servers_call st
      in if \<not> truthy (server_id (created_server env))
         then st1\<lparr>msg := PStr (''Error while retrieving the Authentication and Policy Server '' @
                                py_str ipAddress @ '' id.'')\<rparr>
         else emit (Accept_certificate_call (server_id (created_server env)) trusted_server) st1)"

text \<open>Writing one key of the entry of an address in the result.\<close>

definition update_entry :: "pyval \<Rightarrow> (response_entry \<Rightarrow> response_entry) \<Rightarrow> module_state \<Rightarrow> module_state" where
  "update_entry ipAddress f st =
     st\<lparr>result_response := (result_response st)
           (ipAddress \<mapsto> f (case result_response st ipAddress of None \<Rightarrow> empty_entry | Some e \<Rightarrow> e))\<rparr>"

definition set_result_msg :: "pyval \<Rightarrow> string \<Rightarrow> module_state \<Rightarrow> module_state" where
  "set_result_msg ipAddress m st = st\<lparr>result_msg := (result_msg st)(ipAddress \<mapsto> m)\<rparr>"

text \<open>
  Lines 1300 to 1334: after the creation of an ISE server, the certificate and the wait.
  \<open>Inl\<close> is an outcome that ends \<^verbatim>\<open>update_auth_policy_server\<close> there, \<open>Inr\<close> the
  state with which it goes on.
\<close>

definition ise_integration :: "environment \<Rightarrow> pyval \<Rightarrow> module_state \<Rightarrow> outcome + module_state" where
  "ise_integration env ipAddress st =
     (let st1 = accept_cisco_ise_server_certificate env ipAddress (want_trusted_server st) st
      in case py_num (want_ise_integration_wait_time st1) of
           Inl e \<Rightarrow> Inl (Crashed e st1)
         | Inr wait_time \<Rightarrow>
             if wait_time < 0 then Inl (Crashed ValueError st1)
             else
               (let st2 = emit Get_servers_call (emit (Sleep wait_time) st1)
                in case ise_servers env of
                     None \<Rightarrow>
                       Inl (Returned (st2\<lparr>msg := PStr (''Failed to retrieve the information from the API 'get_authentication_and_policy_servers' of '' @
                                                 py_str ipAddress @ ''.''),
                                    status := ''failed''\<rparr>))
                   | Some None \<Rightarrow> Inl (Crashed AttributeError st2)
                   | Some (Some ise_server_details) \<Rightarrow>
                       if dget ise_server_details ''state'' = PStr ''INPROGRESS''
                       then Inl (Returned (st2\<lparr>msg := PStr (''The Cisco ISE server '' @ quoted (py_str ipAddress) @
                                 '' integration is incomplete, currently in 'INPROGRESS' state. '' @
                                 ''The integration has exceeded the expected duration of '' @
                                 quoted (py_str (want_ise_integration_wait_time st2)) @ '' second(s).''),
                               status := ''failed''\<rparr>))
                       else if dget ise_server_details ''state'' = PStr ''FAILED''
                       then Inl (Returned (st2\<lparr>msg := PStr (''The Cisco ISE server '' @ quoted (py_str ipAddress) @
                                 '' integration has failed and in 'FAILED' state.'' @
                                 (if want_trusted_server st2 = PBool False
                                  then '' This is the first time Cisco Catalyst Center has encountered '' @
                                       ''this certificate from Cisco ISE, and it is not yet trusted.''
                                  else [])),
                               status := ''failed''\<rparr>))
                       else Inr st2))"

text \<open>Lines 1284 to 1346: the server does not exist; it is created.\<close>

definition create_auth_policy_server ::
  "environment \<Rightarrow> pyval \<Rightarrow> auth_server \<Rightarrow> module_state \<Rightarrow> outcome" where
  "create_auth_policy_server env ipAddress auth_server_params st =
     (case check_auth_server_response_status env (add_response env)
             [''successfully created aaa settings'', ''operation sucessful'']
             ''add_authentication_and_policy_server_access_configuration''
             (emit (Add_call auth_server_params) st) of
        Returned st1 \<Rightarrow>
          if status st1 = ''failed'' then Returned st1
          else
            (case (if truthy (dget (scalars auth_server_params) ''isIseEnabled'')
                      \<and> validation_string st1 = ''operation sucessful''
                   then ise_integration env ipAddress st1 else Inr st1) of
               Inl out \<Rightarrow> out
             | Inr st2 \<Rightarrow>
                 Returned
                   (set_result_msg ipAddress ''Authentication and Policy Server Created Successfully''
                      (update_entry ipAddress (\<lambda>e. e\<lparr>created_details := want_auth st2\<rparr>) st2)))
      | out \<Rightarrow> out)"

text \<open>
  Lines 1348 to 1398: the server exists. The payload is checked by
  \<^verbatim>\<open>format_payload_for_update\<close>, whose failure ends the module; then the server is
  edited when it is an ISE server or \<^verbatim>\<open>requires_update\<close> finds a difference.
\<close>

definition edit_auth_policy_server ::
  "(pyval \<Rightarrow> pyval \<Rightarrow> bool) \<Rightarrow> environment \<Rightarrow> pyval \<Rightarrow> auth_server_info \<Rightarrow> auth_server
     \<Rightarrow> module_state \<Rightarrow> outcome" where
  "edit_auth_policy_server dnac_compare_equality env ipAddress hv want_auth_server st =
     (case details hv of
        None \<Rightarrow> Crashed AttributeError st
      | Some d \<Rightarrow>
          (case check_return_status (format_payload_for_update d want_auth_server st) of
             Returned st1 \<Rightarrow>
               (case want_auth st1 of
                  None \<Rightarrow> Crashed AttributeError st1
                | Some w \<Rightarrow>
                    if \<not> (truthy (dget (d_fields d) ''isIseEnabled'')
                           \<or> requires_update dnac_compare_equality (d_fields d) (scalars w)
                                authentication_policy_server_obj_params)
                    then Returned
                      (set_result_msg ipAddress ''Authentication and Policy Server doesn't require an update''
                         (update_entry ipAddress
                            (\<lambda>e. e\<lparr>catalyst_params := Some d, entry_Id := Some (server_id hv)\<rparr>) st1))
                    else
                      (case check_auth_server_response_status env (edit_response env)
                              [''successfully updated aaa settings'', ''operation sucessful'']
                              ''edit_authentication_and_policy_server_access_configuration''
                              (emit (Edit_call w (server_id hv)) st1) of
                         Returned st2 \<Rightarrow>
                           if status st2 = ''failed'' then Returned st2
                           else Returned
                             (set_result_msg ipAddress ''Authentication and Policy Server Updated Successfully''
                                (update_entry ipAddress (\<lambda>e. e\<lparr>entry_Id := Some (server_id hv)\<rparr>) st2))
                       | out \<Rightarrow> out))
           | out \<Rightarrow> out))"

text \<open>Lines 1267 to 1398.\<close>

definition update_auth_policy_server ::
  "(pyval \<Rightarrow> pyval \<Rightarrow> bool) \<Rightarrow> environment \<Rightarrow> pyval \<Rightarrow> module_state \<Rightarrow> outcome" where
  "update_auth_policy_server dnac_compare_equality env ipAddress st =
     (let st0 = st\<lparr>result_response := (result_response st)(ipAddress \<mapsto> empty_entry)\<rparr>
      in case want_auth st0 of
           None \<Rightarrow> Crashed AttributeError st0
         | Some w \<Rightarrow>
             (case have_auth st0 of
                None \<Rightarrow> Crashed AttributeError st0
              | Some hv \<Rightarrow>
                  if \<not> exists hv then create_auth_policy_server env ipAddress w st0
                  else edit_auth_policy_server dnac_compare_equality env ipAddress hv w st0))"

text \<open>
  Lines 1400 to 1417. \<open>config\<close> is \<^verbatim>\<open>config.get("authentication_policy_server")\<close> of
  one element of the playbook's list.
\<close>

definition get_diff_merged ::
  "(pyval \<Rightarrow> pyval \<Rightarrow> bool) \<Rightarrow> environment \<Rightarrow> auth_policy_server option \<Rightarrow> module_state
     \<Rightarrow> outcome" where
  "get_diff_merged dnac_compare_equality env config st =
     (case config of
        None \<Rightarrow> Returned st
      | Some aps \<Rightarrow>
          update_auth_policy_server dnac_compare_equality env
            (dget (params aps) ''server_ip_address'') st)"

section \<open>Deleting: delete_auth_policy_server\<close>

text \<open>
  Modelled from the spec: \<^verbatim>\<open>DnacBase.check_task_response_status\<close>, of
  \<^verbatim>\<open>plugins/module_utils/dnac.py\<close>, which is not among the sources. By the spec it
  polls "a task endpoint with a fixed sleep interval until a success/failure string
  appears in a progress message, bounded by a timeout": it submits no configuration call,
  and the status, the message and the change flag it leaves are the environment's.
\<close>

definition check_task_response_status :: "environment \<Rightarrow> module_state \<Rightarrow> module_state" where
  "check_task_response_status env st =
     st\<lparr>status := delete_task_status env, msg := delete_task_msg env,
        changed := (changed st \<or> delete_task_changed env)\<rparr>"

text \<open>Lines 1419 to 1462.\<close>

definition delete_auth_policy_server :: "environment \<Rightarrow> pyval \<Rightarrow> module_state \<Rightarrow> outcome" where
  "delete_auth_policy_server env ipAddress st =
     (case have_auth st of
        None \<Rightarrow> Crashed AttributeError st
      | Some hv \<Rightarrow>
          if \<not> exists hv
          then Returned
                 (st\<lparr>result_response := (result_response st)
                        (ipAddress \<mapsto> empty_entry\<lparr>entry_text := Some ''Authentication and Policy Server not found''\<rparr>),
                     msg := PStr ''Authentication and Policy Server not found.'',
                     status := ''success''\<rparr>)
          else
            (case check_return_status
                    (check_task_response_status env (emit (Delete_call (server_id hv)) st)) of
               Returned st1 \<Rightarrow>
                 (case delete_response env of
                    None \<Rightarrow> Crashed AttributeError st1
                  | Some r \<Rightarrow>
                      Returned
                        ((set_result_msg ipAddress ''Authentication and Policy Server deleted successfully.''
                            (st1\<lparr>result_response := (result_response st1)
                                   (ipAddress \<mapsto> empty_entry\<lparr>entry_Task_Id := Some (dget r ''taskId'')\<rparr>)\<rparr>))
                         \<lparr>msg := PStr (''Authentication and Policy Server - '' @ py_str ipAddress @
                                       '' deleted successfully.''),
                          status := ''success''\<rparr>))
             | out \<Rightarrow> out))"

text \<open>The call \<^verbatim>\<open>m(...).check_return_status()\<close> on what a method returns.\<close>

fun checked :: "outcome \<Rightarrow> outcome" where
  "checked (Returned st) = check_return_status st"
| "checked out = out"

text \<open>Lines 1464 to 1479.\<close>

definition get_diff_deleted :: "environment \<Rightarrow> auth_policy_server option \<Rightarrow> module_state \<Rightarrow> outcome" where
  "get_diff_deleted env config st =
     (case config of
        None \<Rightarrow> Returned st
      | Some aps \<Rightarrow> checked (delete_auth_policy_server env (dget (params aps) ''server_ip_address'') st))"

section \<open>One element of the playbook\<close>

text \<open>
  Lines 664 to 707. \<^verbatim>\<open>auth_server_exists\<close> (lines 615 to 662) sends the query for
  the servers and searches its answer with \<^verbatim>\<open>get_dict_result\<close>; what it returns is
  \<open>current_server\<close> of the environment.
\<close>

definition get_have_authentication_policy_server ::
  "environment \<Rightarrow> auth_policy_server option \<Rightarrow> module_state \<Rightarrow> outcome" where
  "get_have_authentication_policy_server env config st =
     (case config of
        None \<Rightarrow> fail_with ''authentication_policy_server in config is missing in the playbook'' st
      | Some aps \<Rightarrow>
          if dget (params aps) ''server_ip_address'' = PNone
          then fail_with ''Missing parameter 'server_ip_address' is required.'' st
          else Returned
                 ((emit Get_servers_call st)
                    \<lparr>have_auth := Some (current_server env),
                     msg := PStr (''Collecting the Authentication and Policy Server '' @
                                  ''details from the Cisco Catalyst Center.''),
                     status := ''success''\<rparr>))"

text \<open>Lines 709 to 728.\<close>

definition get_have :: "environment \<Rightarrow> auth_policy_server option \<Rightarrow> module_state \<Rightarrow> outcome" where
  "get_have env config st =
     (case (case config of
              None \<Rightarrow> Returned st
            | Some aps \<Rightarrow> checked (get_have_authentication_policy_server env config st)) of
        Returned st1 \<Rightarrow>
          Returned (st1\<lparr>msg := PStr ''Successfully retrieved the details from the Cisco Catalyst Center'',
                        status := ''success''\<rparr>)
      | out \<Rightarrow> out)"

text \<open>
  Lines 1101 to 1119. \<^verbatim>\<open>if config.get("authentication_policy_server")\<close> is false for
  \<^verbatim>\<open>None\<close> and for the empty dictionary.
\<close>

definition is_empty_dict :: "auth_policy_server \<Rightarrow> bool" where
  "is_empty_dict aps =
     (params aps = Map.empty \<and> cisco_ise_dtos aps = None \<and> external_cisco_ise_ip_addr_dtos aps = None)"

definition get_want :: "auth_policy_server option \<Rightarrow> module_state \<Rightarrow> outcome" where
  "get_want config st =
     (case (case config of
              None \<Rightarrow> Returned st
            | Some aps \<Rightarrow>
                if is_empty_dict aps then Returned st
                else checked (get_want_authentication_policy_server aps st)) of
        Returned st1 \<Rightarrow>
          Returned (st1\<lparr>msg := PStr ''Successfully retrieved details from the playbook'',
                        status := ''success''\<rparr>)
      | out \<Rightarrow> out)"

text \<open>Lines 1562 to 1575.\<close>

definition reset_values :: "module_state \<Rightarrow> module_state" where
  "reset_values st =
     st\<lparr>have_auth := None, want_auth := None, want_trusted_server := PNone,
        want_ise_integration_wait_time := PNone\<rparr>"

text \<open>
  Lines 1614 to 1619: the body of the loop of \<^verbatim>\<open>main\<close> for one element, with the
  parameter \<^verbatim>\<open>state\<close> of the module (\<^verbatim>\<open>merged\<close> or \<^verbatim>\<open>deleted\<close>) and with
  \<^verbatim>\<open>config_verify\<close> false, its default.
\<close>

datatype module_param_state = Merged | Deleted

fun go_on :: "outcome \<Rightarrow> (module_state \<Rightarrow> outcome) \<Rightarrow> outcome" where
  "go_on (Returned st) f = f st"
| "go_on out f = out"

definition process_config ::
  "(pyval \<Rightarrow> pyval \<Rightarrow> bool) \<Rightarrow> environment \<Rightarrow> module_param_state \<Rightarrow> auth_policy_server option
     \<Rightarrow> module_state \<Rightarrow> outcome" where
  "process_config dnac_compare_equality env state config st =
     go_on (checked (get_have env config (reset_values st))) (\<lambda>st1.
       case state of
         Deleted \<Rightarrow> checked (get_diff_deleted env config st1)
       | Merged \<Rightarrow>
           go_on (checked (get_want config st1)) (\<lambda>st2.
             checked (get_diff_merged dnac_compare_equality env config st2)))"

text \<open>
  Lines 1614 to 1623: the loop of \<^verbatim>\<open>main\<close> over the elements of the playbook, each
  with what the remote system answers while it is processed. The object, and with it
  \<^verbatim>\<open>result\<close>, is the same for all the elements.
\<close>

fun process_configs ::
  "(pyval \<Rightarrow> pyval \<Rightarrow> bool) \<Rightarrow> module_param_state \<Rightarrow> (environment \<times> auth_policy_server option) list
     \<Rightarrow> module_state \<Rightarrow> outcome" where
  "process_configs dnac_compare_equality state [] st = Returned st"
| "process_configs dnac_compare_equality state ((env, config) # rest) st =
     go_on (process_config dnac_compare_equality env state config st)
       (process_configs dnac_compare_equality state rest)"

text \<open>
  The three REST calls that change the configuration of the remote system, and the
  events a run adds to those of the state it starts from.
\<close>

fun is_add :: "event \<Rightarrow> bool" where
  "is_add (Add_call p) = True"
| "is_add e = False"

fun is_edit :: "event \<Rightarrow> bool" where
  "is_edit (Edit_call p i) = True"
| "is_edit e = False"

fun is_delete :: "event \<Rightarrow> bool" where
  "is_delete (Delete_call i) = True"
| "is_delete e = False"

definition mutating :: "event \<Rightarrow> bool" where
  "mutating e = (is_add e \<or> is_edit e \<or> is_delete e)"

definition new_events :: "module_state \<Rightarrow> outcome \<Rightarrow> event list" where
  "new_events st out = drop (length (events st)) (events (final out))"

text \<open>
  The condition of the \<^verbatim>\<open>elif\<close> of line 1247, after the test of line 1244: the desired
  value of the item is there and differs from the current one.
\<close>

definition modifies :: "pydict \<Rightarrow> pydict \<Rightarrow> string \<Rightarrow> bool" where
  "modifies have_auth_server want_auth_server item =
     (dget want_auth_server item \<noteq> PNone
      \<and> \<not> py_eq (dget have_auth_server item) (dget want_auth_server item))"

text \<open>
  The tests of lines 769, 775 and 781 to 782 on the playbook's \<^verbatim>\<open>shared_secret\<close>, and
  the messages of lines 770, 776 and 783.
\<close>

definition invalid_shared_secret :: "pyval \<Rightarrow> bool" where
  "invalid_shared_secret shared_secret =
     (\<not> truthy shared_secret
      \<or> length (py_str shared_secret) < 4 \<or> length (py_str shared_secret) > 100
      \<or> list_ex (\<lambda>c. c \<in> set (py_str shared_secret)) '' ?<'')"

definition secret_msgs :: "string set" where
  "secret_msgs = {''Missing parameter 'shared_secret' is required.'',
     ''The 'shared_secret' should contain between 4 and 100 characters.'',
     ''The 'shared_secret' should not contain spaces or the characters '?', '<'.''}"

text \<open>The message of line 1366, and the outcomes that end the module.\<close>

definition noop_msg :: string where
  "noop_msg = ''Authentication and Policy Server doesn't require an update''"

fun exited :: "outcome \<Rightarrow> bool" where
  "exited (Exited st) = True"
| "exited out = False"

text \<open>
  The configuration calls that the processing of one element of the playbook sends, in
  order: the body of the loop of lines 1614 to 1623, run from the state \<open>st\<close>.
\<close>

definition config_calls ::
  "(pyval \<Rightarrow> pyval \<Rightarrow> bool) \<Rightarrow> environment \<Rightarrow> module_param_state \<Rightarrow> auth_policy_server option
     \<Rightarrow> module_state \<Rightarrow> event list" where
  "config_calls dnac_compare_equality env state config st =
     filter mutating (new_events st (process_config dnac_compare_equality env state config st))"

section \<open>Concrete inputs\<close>

text \<open>States, playbook entries and answers of the remote system on which the
  properties below are run.\<close>

definition absent_server :: auth_server_info where
  "absent_server = \<lparr>exists = False, details = None, server_id = PNone\<rparr>"

definition start_state :: module_state where
  "start_state = \<lparr>max_timeout = 1200, status = ''success'', msg = PStr [], changed = False,
     validation_string = [], have_auth = None, want_auth = None,
     want_trusted_server = PNone, want_ise_integration_wait_time = PNone,
     result_response = Map.empty, result_msg = Map.empty, events = []\<rparr>"

definition short_password_entry :: auth_policy_server where
  "short_password_entry =
     \<lparr>params = [''server_type'' \<mapsto> PStr ''ISE'', ''server_ip_address'' \<mapsto> PStr ''10.0.0.1'',
                 ''shared_secret'' \<mapsto> PStr ''secret''],
      cisco_ise_dtos = Some [[''user_name'' \<mapsto> PStr ''admin'', ''password'' \<mapsto> PStr ''abc'',
                              ''fqdn'' \<mapsto> PStr ''ise.example.com'', ''ip_address'' \<mapsto> PStr ''10.0.0.1'']],
      external_cisco_ise_ip_addr_dtos = None\<rparr>"

definition quiet_env :: environment where
  "quiet_env = \<lparr>current_server = absent_server, add_response = None, edit_response = None,
     delete_response = None, task_polls = [], created_server = absent_server,
     ise_servers = None, delete_task_status = ''success'', delete_task_msg = PStr [],
     delete_task_changed = False\<rparr>"

definition address_only_entry :: auth_policy_server where
  "address_only_entry = \<lparr>params = [''server_ip_address'' \<mapsto> PStr ''10.0.0.1''],
     cisco_ise_dtos = None, external_cisco_ise_ip_addr_dtos = None\<rparr>"

definition radius_details :: server_details where
  "radius_details =
     \<lparr>d_fields = [''authenticationPort'' \<mapsto> PInt 1812, ''accountingPort'' \<mapsto> PInt 1813,
                   ''isIseEnabled'' \<mapsto> PBool False, ''ipAddress'' \<mapsto> PStr ''10.0.0.1'',
                   ''port'' \<mapsto> PInt 49, ''protocol'' \<mapsto> PStr ''RADIUS'',
                   ''retries'' \<mapsto> PStr ''3'', ''role'' \<mapsto> PStr ''primary'',
                   ''timeoutSeconds'' \<mapsto> PStr ''4''],
      d_ciscoIseDtos = None\<rparr>"

definition radius_server :: auth_server_info where
  "radius_server = \<lparr>exists = True, details = Some radius_details, server_id = PStr ''id-1''\<rparr>"

definition radius_state :: module_state where
  "radius_state = start_state\<lparr>have_auth := Some radius_server\<rparr>"



definition protocol_entry :: "string \<Rightarrow> auth_policy_server" where
  "protocol_entry protocol =
     \<lparr>params = [''server_ip_address'' \<mapsto> PStr ''10.0.0.1'', ''protocol'' \<mapsto> PStr protocol],
      cisco_ise_dtos = None, external_cisco_ise_ip_addr_dtos = None\<rparr>"

definition new_server_entry :: "string \<Rightarrow> string \<Rightarrow> auth_policy_server" where
  "new_server_entry shared_secret protocol =
     \<lparr>params = [''server_type'' \<mapsto> PStr ''AAA'', ''server_ip_address'' \<mapsto> PStr ''10.0.0.2'',
                 ''shared_secret'' \<mapsto> PStr shared_secret, ''protocol'' \<mapsto> PStr protocol],
      cisco_ise_dtos = None, external_cisco_ise_ip_addr_dtos = None\<rparr>"

definition absent_state :: module_state where
  "absent_state = start_state\<lparr>have_auth := Some absent_server\<rparr>"

definition existing_want :: "bool \<Rightarrow> string \<Rightarrow> string \<Rightarrow> auth_server" where
  "existing_want ise protocol retries =
     \<lparr>scalars = [''isIseEnabled'' \<mapsto> PBool ise, ''ipAddress'' \<mapsto> PStr ''10.0.0.1'',
                  ''protocol'' \<mapsto> PStr protocol, ''port'' \<mapsto> PInt 49,
                  ''authenticationPort'' \<mapsto> PInt 1812, ''accountingPort'' \<mapsto> PInt 1813,
                  ''retries'' \<mapsto> PStr retries, ''timeoutSeconds'' \<mapsto> PStr ''4'',
                  ''role'' \<mapsto> PStr ''primary''],
      want_ciscoIseDtos = None, externalCiscoIseIpAddrDtos = None\<rparr>"

definition wanted_state :: "string \<Rightarrow> string \<Rightarrow> module_state" where
  "wanted_state protocol retries =
     radius_state\<lparr>want_auth := Some (existing_want False protocol retries),
                   msg := PStr ''Successfully retrieved details from the playbook'',
                   status := ''success''\<rparr>"

definition ise_details :: server_details where
  "ise_details = radius_details\<lparr>d_fields := (d_fields radius_details)(''isIseEnabled'' \<mapsto> PBool True)\<rparr>"

definition ise_server :: auth_server_info where
  "ise_server = \<lparr>exists = True, details = Some ise_details, server_id = PStr ''id-2''\<rparr>"

definition ise_state :: module_state where
  "ise_state = start_state\<lparr>have_auth := Some ise_server,
                 want_auth := Some (existing_want True ''RADIUS'' ''3'')\<rparr>"

definition radius_env :: environment where
  "radius_env = quiet_env\<lparr>current_server := radius_server\<rparr>"

definition retries_entry :: auth_policy_server where
  "retries_entry = \<lparr>params = [''server_ip_address'' \<mapsto> PStr ''10.0.0.1'', ''retries'' \<mapsto> PInt 2],
     cisco_ise_dtos = None, external_cisco_ise_ip_addr_dtos = None\<rparr>"

text \<open>
  A playbook of two new servers. The task of the first creation reports its success at the
  first poll; the task of the second is still running at its first poll. \<open>create_strings\<close>
  is the tuple of line 1294.
\<close>

definition pending_task :: pydict where
  "pending_task = [''isError'' \<mapsto> PBool False, ''progress'' \<mapsto> PStr ''creating aaa settings'']"

definition created_env :: environment where
  "created_env = quiet_env
     \<lparr>add_response := Some [''taskId'' \<mapsto> PStr ''task-1''],
      task_polls := [(0, Some [''isError'' \<mapsto> PBool False,
                               ''progress'' \<mapsto> PStr ''successfully created aaa settings''])]\<rparr>"

definition pending_env :: environment where
  "pending_env = quiet_env
     \<lparr>add_response := Some [''taskId'' \<mapsto> PStr ''task-2''],
      task_polls := [(0, Some pending_task)]\<rparr>"

definition other_server_entry :: auth_policy_server where
  "other_server_entry =
     \<lparr>params = [''server_type'' \<mapsto> PStr ''AAA'', ''server_ip_address'' \<mapsto> PStr ''10.0.0.3'',
                 ''shared_secret'' \<mapsto> PStr ''secret'', ''protocol'' \<mapsto> PStr ''RADIUS''],
      cisco_ise_dtos = None, external_cisco_ise_ip_addr_dtos = None\<rparr>"

definition two_servers :: "(environment \<times> auth_policy_server option) list" where
  "two_servers = [(created_env, Some (new_server_entry ''secret'' ''RADIUS'')),
                  (pending_env, Some other_server_entry)]"

definition create_strings :: "string list" where
  "create_strings = [''successfully created aaa settings'', ''operation sucessful'']"

section \<open>Properties\<close>

lemmas want_defs = get_want_authentication_policy_server_def want_scalars_def want_server_type_def
  want_shared_secret_def want_protocol_def want_encryption_def want_authentication_port_def
  want_accounting_port_def want_retries_def want_timeout_def want_role_def want_ise_def
  want_ise_credential_def want_pxgrid_def want_trusted_def want_wait_time_def fail_with_def
  want_done_def details_get_def have_ise_dto_def dget_def isdigit_def is_ascii_digit_def
  str_int_def digit_char_def

lemmas flow_defs = process_config_def get_have_def get_have_authentication_policy_server_def
  get_want_def get_diff_merged_def get_diff_deleted_def delete_auth_policy_server_def
  update_auth_policy_server_def check_return_status_def reset_values_def emit_def fail_with_def
  is_empty_dict_def

subsection \<open>Messages of the failing paths of get_want\<close>

text \<open>
  C5. Every failing path of \<^verbatim>\<open>get_want_authentication_policy_server\<close> should leave a
  non-empty message. The path for a password whose length is not between 4 and 127 (lines
  970 to 973) sets \<^verbatim>\<open>self.msg = ""\<close>: for a new ISE server whose credential has the
  password \<^verbatim>\<open>abc\<close> the method returns with the status \<^verbatim>\<open>failed\<close> and the empty message.
\<close>

theorem get_want_short_password_empty_msg:
  "get_want_authentication_policy_server short_password_entry
     (start_state\<lparr>have_auth := Some absent_server\<rparr>)
   = Returned (start_state\<lparr>have_auth := Some absent_server, msg := PStr [], status := ''failed''\<rparr>)"
  by (simp add: want_defs start_state_def short_password_entry_def absent_server_def)

subsection \<open>Deleting a server that is not there\<close>

text \<open>
  C10. When the current state holds no server for the address,
  \<^verbatim>\<open>delete_auth_policy_server\<close> sends nothing (the events are unchanged), returns with the
  status \<^verbatim>\<open>success\<close> and the message \<^verbatim>\<open>Authentication and Policy Server not found.\<close>,
  leaves \<^verbatim>\<open>result['changed']\<close> as it was, and run again on the state it returns gives
  that state back. \<^verbatim>\<open>get_diff_deleted\<close> returns the same state, and the whole processing
  of such an element in the state \<^verbatim>\<open>deleted\<close> sends only the query of \<^verbatim>\<open>get_have\<close>.
\<close>

theorem delete_absent_server_is_noop:
  "(have_auth st = Some hv \<and> \<not> exists hv \<longrightarrow>
      (\<exists>st'. delete_auth_policy_server env ipAddress st = Returned st'
         \<and> events st' = events st
         \<and> status st' = ''success''
         \<and> msg st' = PStr ''Authentication and Policy Server not found.''
         \<and> changed st' = changed st
         \<and> delete_auth_policy_server env ipAddress st' = Returned st')
      \<and> get_diff_deleted env (Some aps) st
          = delete_auth_policy_server env (dget (params aps) ''server_ip_address'') st)
   \<and> (\<not> exists (current_server env) \<and> dget (params aps) ''server_ip_address'' \<noteq> PNone \<longrightarrow>
      (\<exists>st'. process_config dnac_compare_equality env Deleted (Some aps) st = Returned st'
         \<and> events st' = events st @ [Get_servers_call]
         \<and> status st' = ''success''
         \<and> msg st' = PStr ''Authentication and Policy Server not found.''
         \<and> changed st' = changed st))"
  by (simp add: flow_defs)

theorem delete_absent_server_is_noop_witness:
  "(\<exists>st'. delete_auth_policy_server quiet_env (PStr ''10.0.0.1'')
              (start_state\<lparr>have_auth := Some absent_server\<rparr>) = Returned st'
         \<and> events st' = events (start_state\<lparr>have_auth := Some absent_server\<rparr>)
         \<and> status st' = ''success''
         \<and> msg st' = PStr ''Authentication and Policy Server not found.''
         \<and> changed st' = changed (start_state\<lparr>have_auth := Some absent_server\<rparr>)
         \<and> delete_auth_policy_server quiet_env (PStr ''10.0.0.1'') st' = Returned st')
   \<and> (\<exists>st'. process_config py_eq quiet_env Deleted (Some address_only_entry) start_state = Returned st'
         \<and> events st' = events start_state @ [Get_servers_call]
         \<and> status st' = ''success''
         \<and> msg st' = PStr ''Authentication and Policy Server not found.''
         \<and> changed st' = changed start_state)"
proof -
  have a: "have_auth (start_state\<lparr>have_auth := Some absent_server\<rparr>) = Some absent_server
           \<and> \<not> exists absent_server"
    by (simp add: absent_server_def)
  have b: "\<not> exists (current_server quiet_env)
           \<and> dget (params address_only_entry) ''server_ip_address'' \<noteq> PNone"
    by (simp add: quiet_env_def absent_server_def address_only_entry_def dget_def)
  show ?thesis
    using a b
      delete_absent_server_is_noop
        [of "start_state\<lparr>have_auth := Some absent_server\<rparr>" absent_server quiet_env
            "PStr ''10.0.0.1''" address_only_entry py_eq]
      delete_absent_server_is_noop
        [of start_state absent_server quiet_env "PStr ''10.0.0.1''" address_only_entry py_eq]
    by blast
qed

subsection \<open>Facts about the stages of get_want and about format_payload_for_update\<close>

lemma py_eq_refl [simp]: "py_eq x x"
  by (cases x) auto

lemma modifies_upd:
  "dget w item = PNone \<Longrightarrow> modifies h (w(item \<mapsto> dget h item)) i = modifies h w i"
  by (auto simp: modifies_def dget_def)

lemma format_update_params_result:
  "format_update_params h w items =
     (find (modifies h w) items,
      (\<lambda>k. if k \<in> set (takeWhile (\<lambda>i. \<not> modifies h w i) items) \<and> dget w k = PNone
            then Some (dget h k) else w k))"
proof (induction items arbitrary: w)
  case Nil
  show ?case by simp
next
  case (Cons item items)
  show ?case
  proof (cases "dget w item = PNone")
    case True
    have m: "\<not> modifies h w item" using True by (simp add: modifies_def)
    have eq: "(\<lambda>i. \<not> modifies h (w(item \<mapsto> dget h item)) i) = (\<lambda>i. \<not> modifies h w i)"
      using modifies_upd [OF True] by auto
    have eq2: "modifies h (w(item \<mapsto> dget h item)) = modifies h w"
      using modifies_upd [OF True] by auto
    let ?w = "w(item \<mapsto> dget h item)"
    have "format_update_params h w (item # items) = format_update_params h ?w items"
      using True by simp
    also have "\<dots> = (find (modifies h ?w) items,
        (\<lambda>k. if k \<in> set (takeWhile (\<lambda>i. \<not> modifies h ?w i) items) \<and> dget ?w k = PNone
              then Some (dget h k) else ?w k))"
      by (rule Cons.IH)
    also have "\<dots> = (find (modifies h w) items,
        (\<lambda>k. if k \<in> set (takeWhile (\<lambda>i. \<not> modifies h w i) items) \<and> dget ?w k = PNone
              then Some (dget h k) else ?w k))"
      unfolding eq2 ..
    also have "\<dots> = (find (modifies h w) (item # items),
        (\<lambda>k. if k \<in> set (takeWhile (\<lambda>i. \<not> modifies h w i) (item # items)) \<and> dget w k = PNone
              then Some (dget h k) else w k))"
    proof -
      have "(if k \<in> set (takeWhile (\<lambda>i. \<not> modifies h w i) items) \<and> dget ?w k = PNone
              then Some (dget h k) else ?w k)
          = (if k \<in> set (takeWhile (\<lambda>i. \<not> modifies h w i) (item # items)) \<and> dget w k = PNone
              then Some (dget h k) else w k)" for k
        using True m by (cases "k = item") (auto simp: dget_def split: option.splits)
      then show ?thesis using m by simp
    qed
    finally show ?thesis .
  next
    case False
    show ?thesis
    proof (cases "modifies h w item")
      case True
      then show ?thesis using False by (simp add: modifies_def)
    next
      case m: False
      then have "py_eq (dget h item) (dget w item)" using False by (simp add: modifies_def)
      then show ?thesis using False m by (auto simp: Cons.IH)
    qed
  qed
qed

lemma and_then_Next: "and_then s f = Next b \<longleftrightarrow> (\<exists>a. s = Next a \<and> f a = Next b)"
  by (cases s) auto

lemma details_get_Next: "details_get hv k = Next v \<longleftrightarrow> (\<exists>d. details hv = Some d \<and> v = dget (d_fields d) k)"
  by (auto simp: details_get_def split: option.splits)

lemma server_type_existing:
  "exists hv \<Longrightarrow> want_server_type hv p = Next a \<Longrightarrow>
     \<exists>d. details hv = Some d \<and>
         a = [''isIseEnabled'' \<mapsto> dget (d_fields d) ''isIseEnabled'',
              ''ipAddress'' \<mapsto> dget p ''server_ip_address'']"
  by (auto simp: want_server_type_def and_then_Next details_get_Next)

lemma shared_secret_existing: "exists hv \<Longrightarrow> want_shared_secret hv p a = Next a' \<Longrightarrow> a' = a"
  by (simp add: want_shared_secret_def)

lemma protocol_Next:
  "want_protocol hv p a = Next a' \<Longrightarrow>
     dget p ''protocol'' \<in> {PStr ''RADIUS'', PStr ''TACACS'', PStr ''RADIUS_TACACS'', PNone}
     \<and> (\<exists>v. a' = a(''protocol'' \<mapsto> v, ''port'' \<mapsto> PInt 49)
            \<and> (dget p ''protocol'' \<noteq> PNone \<longrightarrow> v = dget p ''protocol'')
            \<and> (dget p ''protocol'' = PNone \<and> exists hv \<longrightarrow>
                 (\<exists>d. details hv = Some d \<and> v = dget (d_fields d) ''protocol'')))"
  unfolding want_protocol_def
  by (auto simp: and_then_Next details_get_Next split: if_splits)

lemma encryption_existing: "exists hv \<Longrightarrow> want_encryption hv p a = Next a' \<Longrightarrow> a' = a"
  by (simp add: want_encryption_def)

lemma authentication_port_existing:
  "exists hv \<Longrightarrow> want_authentication_port hv p a = Next a' \<Longrightarrow>
     \<exists>d. details hv = Some d \<and> a' = a(''authenticationPort'' \<mapsto> dget (d_fields d) ''authenticationPort'')"
  by (auto simp: want_authentication_port_def and_then_Next details_get_Next)

lemma accounting_port_existing:
  "exists hv \<Longrightarrow> want_accounting_port hv p a = Next a' \<Longrightarrow>
     \<exists>d. details hv = Some d \<and> a' = a(''accountingPort'' \<mapsto> dget (d_fields d) ''accountingPort'')"
  by (auto simp: want_accounting_port_def and_then_Next details_get_Next)

lemma retries_Next: "want_retries hv p a = Next a' \<Longrightarrow> \<exists>v. a' = a(''retries'' \<mapsto> v)"
  unfolding want_retries_def
  by (auto simp: and_then_Next split: if_splits sum.splits exc.splits)

lemma timeout_Next: "want_timeout hv p a = Next a' \<Longrightarrow> \<exists>v. a' = a(''timeoutSeconds'' \<mapsto> v)"
  unfolding want_timeout_def
  by (auto simp: and_then_Next split: if_splits sum.splits exc.splits)

lemma role_existing:
  "exists hv \<Longrightarrow> want_role hv p a = Next a' \<Longrightarrow>
     \<exists>d. details hv = Some d \<and> a' = a(''role'' \<mapsto> dget (d_fields d) ''role'')"
  by (auto simp: want_role_def and_then_Next details_get_Next)

lemma want_scalars_existing:
  assumes ex: "exists hv" and w: "want_scalars hv p = Next a"
  shows "\<exists>d. details hv = Some d
           \<and> dget a ''authenticationPort'' = dget (d_fields d) ''authenticationPort''
           \<and> dget a ''accountingPort'' = dget (d_fields d) ''accountingPort''
           \<and> dget a ''role'' = dget (d_fields d) ''role''
           \<and> dget a ''isIseEnabled'' = dget (d_fields d) ''isIseEnabled''
           \<and> dget a ''protocol'' = (if dget p ''protocol'' \<noteq> PNone then dget p ''protocol''
                                        else dget (d_fields d) ''protocol'')
           \<and> dget p ''protocol'' \<in> {PStr ''RADIUS'', PStr ''TACACS'', PStr ''RADIUS_TACACS'', PNone}"
proof -
  from w obtain a1 a2 a3 a4 a5 a6 a7 a8 where
    s1: "want_server_type hv p = Next a1" and
    s2: "want_shared_secret hv p a1 = Next a2" and
    s3: "want_protocol hv p a2 = Next a3" and
    s4: "want_encryption hv p a3 = Next a4" and
    s5: "want_authentication_port hv p a4 = Next a5" and
    s6: "want_accounting_port hv p a5 = Next a6" and
    s7: "want_retries hv p a6 = Next a7" and
    s8: "want_timeout hv p a7 = Next a8" and
    s9: "want_role hv p a8 = Next a"
    unfolding want_scalars_def and_then_Next by blast
  from server_type_existing [OF ex s1] obtain d where
    d: "details hv = Some d" and
    a1: "a1 = [''isIseEnabled'' \<mapsto> dget (d_fields d) ''isIseEnabled'',
               ''ipAddress'' \<mapsto> dget p ''server_ip_address'']" by blast
  have a2: "a2 = a1" using shared_secret_existing [OF ex s2] .
  from protocol_Next [OF s3] obtain v where
    pr: "dget p ''protocol'' \<in> {PStr ''RADIUS'', PStr ''TACACS'', PStr ''RADIUS_TACACS'', PNone}" and
    a3: "a3 = a2(''protocol'' \<mapsto> v, ''port'' \<mapsto> PInt 49)" and
    v1: "dget p ''protocol'' \<noteq> PNone \<longrightarrow> v = dget p ''protocol''" and
    v2: "dget p ''protocol'' = PNone \<and> exists hv \<longrightarrow>
           (\<exists>d. details hv = Some d \<and> v = dget (d_fields d) ''protocol'')" by blast
  have v: "v = (if dget p ''protocol'' \<noteq> PNone then dget p ''protocol''
                else dget (d_fields d) ''protocol'')"
    using v1 v2 ex d by auto
  have a4: "a4 = a3" using encryption_existing [OF ex s4] .
  have a5: "a5 = a4(''authenticationPort'' \<mapsto> dget (d_fields d) ''authenticationPort'')"
    using authentication_port_existing [OF ex s5] d by auto
  have a6: "a6 = a5(''accountingPort'' \<mapsto> dget (d_fields d) ''accountingPort'')"
    using accounting_port_existing [OF ex s6] d by auto
  from retries_Next [OF s7] obtain r where a7: "a7 = a6(''retries'' \<mapsto> r)" by blast
  from timeout_Next [OF s8] obtain t where a8: "a8 = a7(''timeoutSeconds'' \<mapsto> t)" by blast
  have a: "a = a8(''role'' \<mapsto> dget (d_fields d) ''role'')"
    using role_existing [OF ex s9] d by auto
  show ?thesis
    using d pr unfolding a a8 a7 a6 a5 a4 a3 a2 a1 v
    by (simp add: dget_def)
qed

lemma pxgrid_Next:
  "want_pxgrid hv p a = Next a' \<Longrightarrow> k \<noteq> ''pxgridEnabled'' \<Longrightarrow> k \<noteq> ''useDnacCertForPxgrid''
     \<Longrightarrow> a' k = a k"
  unfolding want_pxgrid_def and_then_Next by auto

lemma want_ise_scalars:
  assumes w: "want_ise hv aps a = Next srv"
    and k: "k \<noteq> ''pxgridEnabled''" "k \<noteq> ''useDnacCertForPxgrid''"
  shows "scalars srv k = a k"
proof -
  obtain c cs where c: "cisco_ise_dtos aps = Some (c # cs)"
    using w by (cases "cisco_ise_dtos aps"; cases "the (cisco_ise_dtos aps)") (simp_all add: want_ise_def)
  from w obtain dtos a1 ext where
    p: "want_pxgrid hv (params aps) a = Next a1" and
    s: "srv = \<lparr>scalars = a1, want_ciscoIseDtos = Some dtos, externalCiscoIseIpAddrDtos = ext\<rparr>"
    by (auto simp: want_ise_def c and_then_Next)
  show ?thesis using pxgrid_Next [OF p k] s by simp
qed

lemma get_want_success:
  assumes h: "have_auth st = Some hv"
    and g: "get_want_authentication_policy_server aps st = Returned st'"
    and s: "status st' = ''success''"
  shows "\<exists>a w. want_scalars hv (params aps) = Next a \<and> want_auth st' = Some w
           \<and> (\<forall>k. k \<noteq> ''pxgridEnabled'' \<and> k \<noteq> ''useDnacCertForPxgrid'' \<longrightarrow> scalars w k = a k)"
proof (cases "want_scalars hv (params aps)")
  case (Next a)
  show ?thesis
  proof (cases "truthy (dget a ''isIseEnabled'')")
    case False
    then show ?thesis using h g s Next
      by (auto simp: get_want_authentication_policy_server_def want_done_def)
  next
    case True
    show ?thesis
    proof (cases "want_ise hv aps a")
      case (Next srv)
      have "want_auth st' = Some srv"
        using h g s Next True \<open>want_scalars hv (params aps) = Next a\<close>
        by (cases "want_wait_time (params aps)")
           (auto simp: get_want_authentication_policy_server_def want_done_def fail_with_def Let_def)
      then show ?thesis
        using want_ise_scalars [OF Next] \<open>want_scalars hv (params aps) = Next a\<close> by auto
    next
      case (Failed m)
      then show ?thesis using h g s True \<open>want_scalars hv (params aps) = Next a\<close>
        by (auto simp: get_want_authentication_policy_server_def fail_with_def)
    next
      case (Raised e)
      then show ?thesis using h g s True \<open>want_scalars hv (params aps) = Next a\<close>
        by (auto simp: get_want_authentication_policy_server_def fail_with_def)
    qed
  qed
next
  case (Failed m)
  then show ?thesis using h g s
    by (auto simp: get_want_authentication_policy_server_def fail_with_def)
next
  case (Raised e)
  then show ?thesis using h g s
    by (auto simp: get_want_authentication_policy_server_def fail_with_def)
qed

lemma format_payload_want:
  "want_auth (format_payload_for_update d w st)
     = Some (w\<lparr>scalars := snd (format_update_params (d_fields d) (scalars w) update_params)\<rparr>)"
  by (simp add: format_payload_for_update_def split: prod.splits option.splits)

lemma format_payload_events: "events (format_payload_for_update d w st) = events st"
  by (simp add: format_payload_for_update_def split: prod.splits option.splits)


lemma format_payload_accepted:
  assumes "find (modifies (d_fields d) (scalars w)) update_params = None"
  shows "status (format_payload_for_update d w st) =
           (if \<not> py_eq (dget (d_fields d) ''protocol'') (dget (scalars w) ''protocol'')
               \<and> dget (scalars w) ''protocol'' \<noteq> PStr ''RADIUS_TACACS''
            then ''failed'' else ''success'')"
  using assms
  by (simp add: format_payload_for_update_def format_update_params_result update_params_def dget_def)

lemmas scalar_stage_defs = want_scalars_def want_server_type_def
  want_shared_secret_def want_protocol_def want_encryption_def want_authentication_port_def
  want_accounting_port_def want_retries_def want_timeout_def want_role_def details_get_def

lemma want_scalars_ignores:
  assumes "exists hv"
  shows "want_scalars hv (p(''authentication_port'' := x, ''accounting_port'' := y, ''role'' := z))
           = want_scalars hv p"
  using assms
  by (simp add: scalar_stage_defs dget_def
        cong del: if_weak_cong sum.case_cong_weak exc.case_cong_weak option.case_cong_weak)

lemma want_pxgrid_ignores:
  "want_pxgrid hv (p(''authentication_port'' := x, ''accounting_port'' := y, ''role'' := z)) a
     = want_pxgrid hv p a"
  by (simp add: want_pxgrid_def dget_def cong del: if_weak_cong)

lemma want_ise_ignores:
  "want_ise hv (aps\<lparr>params := (params aps)(''authentication_port'' := x, ''accounting_port'' := y, ''role'' := z)\<rparr>) a
     = want_ise hv aps a"
  by (simp add: want_ise_def want_pxgrid_ignores split: option.splits list.splits)

lemma get_want_ignores:
  assumes "have_auth st = Some hv" and "exists hv"
  shows "get_want_authentication_policy_server
           (aps\<lparr>params := (params aps)(''authentication_port'' := x, ''accounting_port'' := y, ''role'' := z)\<rparr>) st
         = get_want_authentication_policy_server aps st"
proof -
  have t: "want_trusted ((params aps)(''authentication_port'' := x, ''accounting_port'' := y, ''role'' := z))
             = want_trusted (params aps)"
    by (simp add: want_trusted_def dget_def)
  have wt: "want_wait_time ((params aps)(''authentication_port'' := x, ''accounting_port'' := y, ''role'' := z))
             = want_wait_time (params aps)"
    by (simp add: want_wait_time_def dget_def
          cong del: if_weak_cong sum.case_cong_weak exc.case_cong_weak)
  show ?thesis
    unfolding get_want_authentication_policy_server_def
    using assms
    by (simp add: want_scalars_ignores want_ise_ignores t wt Let_def
          cong del: if_weak_cong step.case_cong_weak)
qed

lemma get_want_existing_fields:
  assumes h: "have_auth st = Some hv" and ex: "exists hv"
    and g: "get_want_authentication_policy_server aps st = Returned st'"
    and s: "status st' = ''success''"
  shows "\<exists>w d. want_auth st' = Some w \<and> details hv = Some d
           \<and> dget (scalars w) ''authenticationPort'' = dget (d_fields d) ''authenticationPort''
           \<and> dget (scalars w) ''accountingPort'' = dget (d_fields d) ''accountingPort''
           \<and> dget (scalars w) ''role'' = dget (d_fields d) ''role''
           \<and> dget (scalars w) ''isIseEnabled'' = dget (d_fields d) ''isIseEnabled''
           \<and> dget (scalars w) ''protocol'' =
                (if dget (params aps) ''protocol'' \<noteq> PNone then dget (params aps) ''protocol''
                 else dget (d_fields d) ''protocol'')
           \<and> dget (params aps) ''protocol'' \<in> {PStr ''RADIUS'', PStr ''TACACS'', PStr ''RADIUS_TACACS'', PNone}"
proof -
  from get_want_success [OF h g s] obtain a w where
    a: "want_scalars hv (params aps) = Next a" and w: "want_auth st' = Some w" and
    k: "\<forall>k. k \<noteq> ''pxgridEnabled'' \<and> k \<noteq> ''useDnacCertForPxgrid'' \<longrightarrow> scalars w k = a k"
    by blast
  have e: "dget (scalars w) ''authenticationPort'' = dget a ''authenticationPort''"
    "dget (scalars w) ''accountingPort'' = dget a ''accountingPort''"
    "dget (scalars w) ''role'' = dget a ''role''"
    "dget (scalars w) ''isIseEnabled'' = dget a ''isIseEnabled''"
    "dget (scalars w) ''protocol'' = dget a ''protocol''"
    using k by (simp_all add: dget_def)
  from want_scalars_existing [OF ex a] obtain d where
    "details hv = Some d
       \<and> dget a ''authenticationPort'' = dget (d_fields d) ''authenticationPort''
       \<and> dget a ''accountingPort'' = dget (d_fields d) ''accountingPort''
       \<and> dget a ''role'' = dget (d_fields d) ''role''
       \<and> dget a ''isIseEnabled'' = dget (d_fields d) ''isIseEnabled''
       \<and> dget a ''protocol'' = (if dget (params aps) ''protocol'' \<noteq> PNone
                                    then dget (params aps) ''protocol''
                                    else dget (d_fields d) ''protocol'')
       \<and> dget (params aps) ''protocol'' \<in> {PStr ''RADIUS'', PStr ''TACACS'', PStr ''RADIUS_TACACS'', PNone}"
    by blast
  then show ?thesis using w e by simp
qed

lemma no_modifies_if_equal:
  "dget w item = dget h item \<Longrightarrow> \<not> modifies h w item"
  by (simp add: modifies_def)

subsection \<open>The fields an update may not modify\<close>




subsection \<open>The desired state of an existing server\<close>

text \<open>
  C8. For a server that exists, \<^verbatim>\<open>get_want_authentication_policy_server\<close> does not
  read the playbook's \<^verbatim>\<open>authentication_port\<close>, \<^verbatim>\<open>accounting_port\<close> and \<^verbatim>\<open>role\<close>:
  whatever they are set to, or absent, the method ends the same. When it succeeds, the
  desired \<^verbatim>\<open>authenticationPort\<close>, \<^verbatim>\<open>accountingPort\<close> and \<^verbatim>\<open>role\<close> are those of the
  current details, so none of the three is rejected by the loop of
  \<^verbatim>\<open>format_payload_for_update\<close>: its rejecting branch is not taken.
\<close>

theorem get_want_existing_keeps_restricted_fields:
  assumes h: "have_auth st = Some hv" and ex: "exists hv"
  shows "get_want_authentication_policy_server
           (aps\<lparr>params := (params aps)(''authentication_port'' := x, ''accounting_port'' := y,
                                        ''role'' := z)\<rparr>) st
         = get_want_authentication_policy_server aps st
       \<and> (get_want_authentication_policy_server aps st = Returned st' \<and> status st' = ''success'' \<longrightarrow>
            (\<exists>w d. want_auth st' = Some w \<and> details hv = Some d
               \<and> dget (scalars w) ''authenticationPort'' = dget (d_fields d) ''authenticationPort''
               \<and> dget (scalars w) ''accountingPort'' = dget (d_fields d) ''accountingPort''
               \<and> dget (scalars w) ''role'' = dget (d_fields d) ''role''
               \<and> (\<forall>item \<in> set update_params. \<not> modifies (d_fields d) (scalars w) item)
               \<and> fst (format_update_params (d_fields d) (scalars w) update_params) = None))"
proof (intro conjI impI)
  show "get_want_authentication_policy_server
           (aps\<lparr>params := (params aps)(''authentication_port'' := x, ''accounting_port'' := y,
                                        ''role'' := z)\<rparr>) st
         = get_want_authentication_policy_server aps st"
    by (rule get_want_ignores [OF h ex])
next
  assume a: "get_want_authentication_policy_server aps st = Returned st' \<and> status st' = ''success''"
  from get_want_existing_fields [OF h ex] a obtain w d where
    w: "want_auth st' = Some w" and d: "details hv = Some d" and
    f: "dget (scalars w) ''authenticationPort'' = dget (d_fields d) ''authenticationPort''"
       "dget (scalars w) ''accountingPort'' = dget (d_fields d) ''accountingPort''"
       "dget (scalars w) ''role'' = dget (d_fields d) ''role''"
    by blast
  have nm: "\<forall>item \<in> set update_params. \<not> modifies (d_fields d) (scalars w) item"
    using f by (simp add: update_params_def no_modifies_if_equal)
  then have "find (modifies (d_fields d) (scalars w)) update_params = None"
    by (simp add: find_None_iff)
  then have "fst (format_update_params (d_fields d) (scalars w) update_params) = None"
    by (simp add: format_update_params_result)
  then show "\<exists>w d. want_auth st' = Some w \<and> details hv = Some d
               \<and> dget (scalars w) ''authenticationPort'' = dget (d_fields d) ''authenticationPort''
               \<and> dget (scalars w) ''accountingPort'' = dget (d_fields d) ''accountingPort''
               \<and> dget (scalars w) ''role'' = dget (d_fields d) ''role''
               \<and> (\<forall>item \<in> set update_params. \<not> modifies (d_fields d) (scalars w) item)
               \<and> fst (format_update_params (d_fields d) (scalars w) update_params) = None"
    using w d f nm by blast
qed

theorem get_want_existing_keeps_restricted_fields_witness:
  "have_auth radius_state = Some radius_server \<and> exists radius_server
   \<and> get_want_authentication_policy_server
         (address_only_entry\<lparr>params := (params address_only_entry)
            (''authentication_port'' := Some (PInt 9999), ''accounting_port'' := Some (PInt 9998),
             ''role'' := Some (PStr ''secondary''))\<rparr>) radius_state
       = get_want_authentication_policy_server address_only_entry radius_state
   \<and> (\<exists>st'. get_want_authentication_policy_server address_only_entry radius_state = Returned st'
          \<and> status st' = ''success''
          \<and> (\<exists>w d. want_auth st' = Some w \<and> details radius_server = Some d
                 \<and> dget (scalars w) ''authenticationPort'' = dget (d_fields d) ''authenticationPort''
                 \<and> dget (scalars w) ''accountingPort'' = dget (d_fields d) ''accountingPort''
                 \<and> dget (scalars w) ''role'' = dget (d_fields d) ''role''
                 \<and> fst (format_update_params (d_fields d) (scalars w) update_params) = None))"
proof -
  have a: "have_auth radius_state = Some radius_server" "exists radius_server"
    by (simp_all add: radius_state_def radius_server_def)
  have "\<exists>st'. get_want_authentication_policy_server address_only_entry radius_state = Returned st'
          \<and> status st' = ''success''"
    by (simp add: want_defs radius_state_def radius_server_def radius_details_def
          address_only_entry_def start_state_def)
  then obtain st' where
    g: "get_want_authentication_policy_server address_only_entry radius_state = Returned st'
        \<and> status st' = ''success''"
    by blast
  show ?thesis
    using a g
      get_want_existing_keeps_restricted_fields
        [OF a, of address_only_entry "Some (PInt 9999)" "Some (PInt 9998)"
           "Some (PStr ''secondary'')" st']
    by blast
qed

subsection \<open>Changing the protocol of an existing server\<close>

text \<open>
  C4. An update of an existing server runs \<^verbatim>\<open>format_payload_for_update\<close> on the
  current details and on the desired payload that \<^verbatim>\<open>get_want_authentication_policy_server\<close>
  has built (lines 1616 to 1619 and 1350). When the desired protocol differs from the
  current one, the method leaves the status \<^verbatim>\<open>failed\<close> exactly when the desired protocol
  is not \<^verbatim>\<open>RADIUS_TACACS\<close>, and the status \<^verbatim>\<open>success\<close> when it is; the desired protocol
  is the playbook's when the playbook gives one.
\<close>

theorem update_protocol_change_only_to_radius_tacacs:
  assumes h: "have_auth st = Some hv" and ex: "exists hv" and d: "details hv = Some d"
    and g: "get_want_authentication_policy_server aps st = Returned st1"
    and s: "status st1 = ''success''"
    and w: "want_auth st1 = Some w"
    and differs: "\<not> py_eq (dget (d_fields d) ''protocol'') (dget (scalars w) ''protocol'')"
  shows "(status (format_payload_for_update d w st1) = ''failed''
            \<longleftrightarrow> dget (scalars w) ''protocol'' \<noteq> PStr ''RADIUS_TACACS'')
       \<and> (dget (scalars w) ''protocol'' = PStr ''RADIUS_TACACS''
            \<longrightarrow> status (format_payload_for_update d w st1) = ''success'')
       \<and> (dget (params aps) ''protocol'' \<noteq> PNone
            \<longrightarrow> dget (scalars w) ''protocol'' = dget (params aps) ''protocol'')"
proof -
  from get_want_existing_fields [OF h ex g s] w d have
    f: "dget (scalars w) ''authenticationPort'' = dget (d_fields d) ''authenticationPort''"
       "dget (scalars w) ''accountingPort'' = dget (d_fields d) ''accountingPort''"
       "dget (scalars w) ''role'' = dget (d_fields d) ''role''" and
    p: "dget (scalars w) ''protocol'' =
                (if dget (params aps) ''protocol'' \<noteq> PNone then dget (params aps) ''protocol''
                 else dget (d_fields d) ''protocol'')"
    by auto
  have "\<forall>item \<in> set update_params. \<not> modifies (d_fields d) (scalars w) item"
    using f by (simp add: update_params_def no_modifies_if_equal)
  then have "find (modifies (d_fields d) (scalars w)) update_params = None"
    by (simp add: find_None_iff)
  from format_payload_accepted [OF this] differs p show ?thesis by simp
qed

theorem update_protocol_change_only_to_radius_tacacs_witness:
  "have_auth radius_state = Some radius_server \<and> exists radius_server
   \<and> details radius_server = Some radius_details
   \<and> (\<exists>st1 w. get_want_authentication_policy_server (protocol_entry ''RADIUS_TACACS'') radius_state
                  = Returned st1
          \<and> status st1 = ''success'' \<and> want_auth st1 = Some w
          \<and> \<not> py_eq (dget (d_fields radius_details) ''protocol'') (dget (scalars w) ''protocol'')
          \<and> dget (scalars w) ''protocol'' = PStr ''RADIUS_TACACS''
          \<and> status (format_payload_for_update radius_details w st1) = ''success'')
   \<and> (\<exists>st1 w. get_want_authentication_policy_server (protocol_entry ''TACACS'') radius_state
                  = Returned st1
          \<and> status st1 = ''success'' \<and> want_auth st1 = Some w
          \<and> \<not> py_eq (dget (d_fields radius_details) ''protocol'') (dget (scalars w) ''protocol'')
          \<and> dget (scalars w) ''protocol'' = PStr ''TACACS''
          \<and> status (format_payload_for_update radius_details w st1) = ''failed'')"
proof -
  have a: "have_auth radius_state = Some radius_server" "exists radius_server"
    "details radius_server = Some radius_details"
    by (simp_all add: radius_state_def radius_server_def)
  have "\<exists>st1 w. get_want_authentication_policy_server (protocol_entry ''RADIUS_TACACS'') radius_state
                  = Returned st1
          \<and> status st1 = ''success'' \<and> want_auth st1 = Some w
          \<and> \<not> py_eq (dget (d_fields radius_details) ''protocol'') (dget (scalars w) ''protocol'')
          \<and> dget (scalars w) ''protocol'' = PStr ''RADIUS_TACACS''"
    by (simp add: want_defs radius_state_def radius_server_def radius_details_def
          protocol_entry_def start_state_def)
  then obtain st1 w where
    g1: "get_want_authentication_policy_server (protocol_entry ''RADIUS_TACACS'') radius_state
           = Returned st1"
      "status st1 = ''success''" "want_auth st1 = Some w"
      "\<not> py_eq (dget (d_fields radius_details) ''protocol'') (dget (scalars w) ''protocol'')"
      "dget (scalars w) ''protocol'' = PStr ''RADIUS_TACACS''"
    by blast
  have "\<exists>st2 v. get_want_authentication_policy_server (protocol_entry ''TACACS'') radius_state
                  = Returned st2
          \<and> status st2 = ''success'' \<and> want_auth st2 = Some v
          \<and> \<not> py_eq (dget (d_fields radius_details) ''protocol'') (dget (scalars v) ''protocol'')
          \<and> dget (scalars v) ''protocol'' = PStr ''TACACS''"
    by (simp add: want_defs radius_state_def radius_server_def radius_details_def
          protocol_entry_def start_state_def)
  then obtain st2 v where
    g2: "get_want_authentication_policy_server (protocol_entry ''TACACS'') radius_state
           = Returned st2"
      "status st2 = ''success''" "want_auth st2 = Some v"
      "\<not> py_eq (dget (d_fields radius_details) ''protocol'') (dget (scalars v) ''protocol'')"
      "dget (scalars v) ''protocol'' = PStr ''TACACS''"
    by blast
  have n: "PStr ''TACACS'' \<noteq> PStr ''RADIUS_TACACS''" by simp
  show ?thesis
    using a g1 g2 n
      update_protocol_change_only_to_radius_tacacs [OF a g1(1) g1(2) g1(3) g1(4)]
      update_protocol_change_only_to_radius_tacacs [OF a g2(1) g2(2) g2(3) g2(4)]
    by metis
qed

subsection \<open>The shared secret of a new server\<close>

lemma and_then_Failed:
  "and_then s f = Failed m \<longleftrightarrow> s = Failed m \<or> (\<exists>a. s = Next a \<and> f a = Failed m)"
  by (cases s) auto

lemma details_get_not_Failed [simp]: "details_get hv k \<noteq> Failed m"
  by (simp add: details_get_def split: option.splits)

lemma lift_exc_not_Failed [simp]: "lift_exc x \<noteq> Failed m"
  by (cases x) auto

lemma protocol_msgs: "want_protocol hv p a = Failed m \<Longrightarrow> m \<notin> secret_msgs"
  by (auto simp: want_protocol_def and_then_Failed secret_msgs_def split: if_splits)

lemma encryption_msgs: "want_encryption hv p a = Failed m \<Longrightarrow> m \<notin> secret_msgs"
  by (auto simp: want_encryption_def secret_msgs_def Let_def split: if_splits)

lemma authentication_port_msgs: "want_authentication_port hv p a = Failed m \<Longrightarrow> m \<notin> secret_msgs"
  by (auto simp: want_authentication_port_def and_then_Failed secret_msgs_def Let_def split: if_splits)

lemma accounting_port_msgs: "want_accounting_port hv p a = Failed m \<Longrightarrow> m \<notin> secret_msgs"
  by (auto simp: want_accounting_port_def and_then_Failed secret_msgs_def Let_def split: if_splits)

lemma retries_msgs: "want_retries hv p a = Failed m \<Longrightarrow> m \<notin> secret_msgs"
  by (auto simp: want_retries_def and_then_Failed secret_msgs_def split: if_splits sum.splits exc.splits)

lemma timeout_msgs: "want_timeout hv p a = Failed m \<Longrightarrow> m \<notin> secret_msgs"
  by (auto simp: want_timeout_def and_then_Failed secret_msgs_def split: if_splits sum.splits exc.splits)

lemma role_msgs: "want_role hv p a \<noteq> Failed m"
  by (auto simp: want_role_def and_then_Failed split: if_splits)

lemma ise_credential_msgs: "want_ise_credential hv c = Failed m \<Longrightarrow> m \<notin> secret_msgs"
  unfolding want_ise_credential_def
  by (auto simp: and_then_Failed have_ise_dto_def secret_msgs_def Let_def
           split: if_splits option.splits list.splits)

lemma ise_credentials_msgs: "want_ise_credentials hv cs = Failed m \<Longrightarrow> m \<notin> secret_msgs"
  by (induction cs) (auto simp: and_then_Failed dest: ise_credential_msgs)

lemma pxgrid_not_Failed: "want_pxgrid hv p a \<noteq> Failed m"
  by (auto simp: want_pxgrid_def and_then_Failed)

lemma set_dto_not_Failed [simp]: "set_dto acc pos f \<noteq> Failed m"
  by (simp add: set_dto_def)

lemma external_not_Failed: "want_external es pos acc \<noteq> Failed m"
  by (induction es pos acc rule: want_external.induct)
     (auto simp: and_then_Failed split: option.splits list.splits if_splits)

lemma want_ise_msgs:
  assumes "want_ise hv aps a = Failed m"
  shows "m \<notin> secret_msgs"
proof (cases "cisco_ise_dtos aps")
  case None
  then show ?thesis using assms by (auto simp: want_ise_def secret_msgs_def)
next
  case (Some l)
  show ?thesis
  proof (cases l)
    case Nil
    then show ?thesis using assms Some by (auto simp: want_ise_def secret_msgs_def)
  next
    case (Cons c cs)
    then have "want_ise_credentials hv (c # cs) = Failed m"
      using assms Some
      by (auto simp: want_ise_def and_then_Failed pxgrid_not_Failed external_not_Failed
               simp del: want_ise_credentials.simps want_external.simps
               split: option.splits list.splits)
    then show ?thesis by (rule ise_credentials_msgs)
  qed
qed

lemma wait_time_msgs: "want_wait_time p = Failed m \<Longrightarrow> m \<notin> secret_msgs"
  by (auto simp: want_wait_time_def secret_msgs_def split: if_splits sum.splits exc.splits)

lemma shared_secret_stage:
  assumes "\<not> exists hv"
  shows "(want_shared_secret hv p a = Failed m \<longrightarrow>
            m \<in> secret_msgs \<and> invalid_shared_secret (dget p ''shared_secret''))"
    and "(invalid_shared_secret (dget p ''shared_secret'') \<longrightarrow>
            (\<exists>m \<in> secret_msgs. want_shared_secret hv p a = Failed m))"
    and "(want_shared_secret hv p a = Next a' \<longrightarrow>
            \<not> invalid_shared_secret (dget p ''shared_secret'')
            \<and> a' = a(''sharedSecret'' \<mapsto> PStr (py_str (dget p ''shared_secret''))))"
    and "want_shared_secret hv p a \<noteq> Raised e"
  using assms
  by (auto simp: want_shared_secret_def invalid_shared_secret_def secret_msgs_def split: if_splits)

lemma server_type_msgs: "want_server_type hv p = Failed m \<Longrightarrow> m \<notin> secret_msgs"
  by (auto simp: want_server_type_def and_then_Failed secret_msgs_def split: if_splits)

lemma server_type_new:
  "\<not> exists hv \<Longrightarrow> dget p ''server_type'' \<in> {PStr ''ISE'', PStr ''AAA'', PNone}
     \<Longrightarrow> \<exists>a. want_server_type hv p = Next a"
  by (auto simp: want_server_type_def)

lemma server_type_new_cases:
  "\<not> exists hv \<Longrightarrow> (\<exists>a. want_server_type hv p = Next a) \<or> (\<exists>m. want_server_type hv p = Failed m)"
  by (auto simp: want_server_type_def)

lemma want_scalars_secret_failure:
  assumes nex: "\<not> exists hv" and f: "want_scalars hv p = Failed m" and m: "m \<in> secret_msgs"
  shows "invalid_shared_secret (dget p ''shared_secret'')"
proof -
  from f consider
    "want_server_type hv p = Failed m"
    | a where "want_shared_secret hv p a = Failed m"
    | a where "want_protocol hv p a = Failed m"
    | a where "want_encryption hv p a = Failed m"
    | a where "want_authentication_port hv p a = Failed m"
    | a where "want_accounting_port hv p a = Failed m"
    | a where "want_retries hv p a = Failed m"
    | a where "want_timeout hv p a = Failed m"
    | a where "want_role hv p a = Failed m"
    unfolding want_scalars_def and_then_Failed by blast
  then show ?thesis
  proof cases
    case 1 then show ?thesis using m server_type_msgs by blast
  next
    case 2 then show ?thesis using shared_secret_stage(1) [OF nex] by blast
  next
    case 3 then show ?thesis using m protocol_msgs by blast
  next
    case 4 then show ?thesis using m encryption_msgs by blast
  next
    case 5 then show ?thesis using m authentication_port_msgs by blast
  next
    case 6 then show ?thesis using m accounting_port_msgs by blast
  next
    case 7 then show ?thesis using m retries_msgs by blast
  next
    case 8 then show ?thesis using m timeout_msgs by blast
  next
    case 9 then show ?thesis using role_msgs by blast
  qed
qed

lemma want_scalars_invalid_secret:
  assumes nex: "\<not> exists hv" and i: "invalid_shared_secret (dget p ''shared_secret'')"
  shows "\<exists>m. want_scalars hv p = Failed m"
    and "dget p ''server_type'' \<in> {PStr ''ISE'', PStr ''AAA'', PNone}
           \<Longrightarrow> \<exists>m \<in> secret_msgs. want_scalars hv p = Failed m"
proof -
  have step: "\<exists>m \<in> secret_msgs. want_scalars hv p = Failed m" if "want_server_type hv p = Next a" for a
  proof -
    from shared_secret_stage(2) [OF nex, of p a] i obtain m where
      "m \<in> secret_msgs" "want_shared_secret hv p a = Failed m" by blast
    then show ?thesis using that by (auto simp: want_scalars_def)
  qed
  show "\<exists>m. want_scalars hv p = Failed m"
  proof (cases "want_server_type hv p")
    case (Next a) then show ?thesis using step by blast
  next
    case (Failed m) then show ?thesis by (simp add: want_scalars_def)
  next
    case (Raised e) then show ?thesis using server_type_new_cases [OF nex, of p] by auto
  qed
  show "\<exists>m \<in> secret_msgs. want_scalars hv p = Failed m"
    if "dget p ''server_type'' \<in> {PStr ''ISE'', PStr ''AAA'', PNone}"
    using server_type_new [OF nex that] step by blast
qed

lemma protocol_keeps: "want_protocol hv p a = Next a' \<Longrightarrow> a' ''sharedSecret'' = a ''sharedSecret''"
  using protocol_Next [of hv p a a'] by auto

lemma encryption_keeps: "want_encryption hv p a = Next a' \<Longrightarrow> a' ''sharedSecret'' = a ''sharedSecret''"
  by (auto simp: want_encryption_def Let_def split: if_splits)

lemma authentication_port_keeps:
  "want_authentication_port hv p a = Next a' \<Longrightarrow> a' ''sharedSecret'' = a ''sharedSecret''"
  by (auto simp: want_authentication_port_def and_then_Next Let_def split: if_splits)

lemma accounting_port_keeps:
  "want_accounting_port hv p a = Next a' \<Longrightarrow> a' ''sharedSecret'' = a ''sharedSecret''"
  by (auto simp: want_accounting_port_def and_then_Next Let_def split: if_splits)

lemma retries_keeps: "want_retries hv p a = Next a' \<Longrightarrow> a' ''sharedSecret'' = a ''sharedSecret''"
  using retries_Next [of hv p a a'] by auto

lemma timeout_keeps: "want_timeout hv p a = Next a' \<Longrightarrow> a' ''sharedSecret'' = a ''sharedSecret''"
  using timeout_Next [of hv p a a'] by auto

lemma role_keeps: "want_role hv p a = Next a' \<Longrightarrow> a' ''sharedSecret'' = a ''sharedSecret''"
  by (auto simp: want_role_def and_then_Next split: if_splits)

lemma want_scalars_new_secret:
  assumes nex: "\<not> exists hv" and w: "want_scalars hv p = Next a"
  shows "\<not> invalid_shared_secret (dget p ''shared_secret'')
         \<and> a ''sharedSecret'' = Some (PStr (py_str (dget p ''shared_secret'')))"
proof -
  from w obtain a1 a2 a3 a4 a5 a6 a7 a8 where
    s1: "want_server_type hv p = Next a1" and
    s2: "want_shared_secret hv p a1 = Next a2" and
    s3: "want_protocol hv p a2 = Next a3" and
    s4: "want_encryption hv p a3 = Next a4" and
    s5: "want_authentication_port hv p a4 = Next a5" and
    s6: "want_accounting_port hv p a5 = Next a6" and
    s7: "want_retries hv p a6 = Next a7" and
    s8: "want_timeout hv p a7 = Next a8" and
    s9: "want_role hv p a8 = Next a"
    unfolding want_scalars_def and_then_Next by blast
  from shared_secret_stage(3) [OF nex, of p a1 a2] s2 have
    v: "\<not> invalid_shared_secret (dget p ''shared_secret'')" and
    a2: "a2 ''sharedSecret'' = Some (PStr (py_str (dget p ''shared_secret'')))"
    by auto
  have "a ''sharedSecret'' = a2 ''sharedSecret''"
    using protocol_keeps [OF s3] encryption_keeps [OF s4] authentication_port_keeps [OF s5]
      accounting_port_keeps [OF s6] retries_keeps [OF s7] timeout_keeps [OF s8] role_keeps [OF s9]
    by simp
  then show ?thesis using v a2 by simp
qed

lemma get_want_failed:
  assumes h: "have_auth st = Some hv"
    and g: "get_want_authentication_policy_server aps st = Returned st'"
    and s: "status st' = ''failed''" and m: "msg st' = PStr m"
  shows "want_scalars hv (params aps) = Failed m
         \<or> (\<exists>a. want_ise hv aps a = Failed m)
         \<or> want_wait_time (params aps) = Failed m"
proof (cases "want_scalars hv (params aps)")
  case (Next a)
  show ?thesis
  proof (cases "truthy (dget a ''isIseEnabled'')")
    case False
    then show ?thesis using h g s Next
      by (auto simp: get_want_authentication_policy_server_def want_done_def)
  next
    case True
    show ?thesis
    proof (cases "want_ise hv aps a")
      case srv: (Next srv)
      show ?thesis using h g s m Next True srv
        by (cases "want_wait_time (params aps)")
           (auto simp: get_want_authentication_policy_server_def want_done_def fail_with_def Let_def)
    next
      case (Failed m')
      then show ?thesis using h g s m True Next
        by (auto simp: get_want_authentication_policy_server_def fail_with_def)
    next
      case (Raised e)
      then show ?thesis using h g s True Next
        by (auto simp: get_want_authentication_policy_server_def fail_with_def)
    qed
  qed
next
  case (Failed m')
  then show ?thesis using h g s m
    by (auto simp: get_want_authentication_policy_server_def fail_with_def)
next
  case (Raised e)
  then show ?thesis using h g s
    by (auto simp: get_want_authentication_policy_server_def fail_with_def)
qed

text \<open>
  C7, as the claim states it, fails: for a new server the method also fails on other
  checks. With the valid shared secret \<^verbatim>\<open>secret\<close> and the protocol \<^verbatim>\<open>SSH\<close> it returns
  with the status \<^verbatim>\<open>failed\<close>.
\<close>

theorem get_want_fails_with_valid_shared_secret:
  "\<not> exists absent_server
   \<and> \<not> invalid_shared_secret (dget (params (new_server_entry ''secret'' ''SSH'')) ''shared_secret'')
   \<and> get_want_authentication_policy_server (new_server_entry ''secret'' ''SSH'') absent_state
       = Returned (absent_state
           \<lparr>msg := PStr ''protocol should either be ['RADIUS', 'TACACS', 'RADIUS_TACACS'].It should not be SSH'',
            status := ''failed''\<rparr>)"
  by (simp add: want_defs invalid_shared_secret_def new_server_entry_def absent_state_def
        absent_server_def start_state_def)

text \<open>
  C7, amended. For a server that does not exist yet: when the playbook's
  \<^verbatim>\<open>shared_secret\<close> is missing (false), shorter than 4 or longer than 100 characters, or
  contains a space, \<^verbatim>\<open>?\<close> or \<^verbatim>\<open><\<close>, \<^verbatim>\<open>get_want_authentication_policy_server\<close>
  returns with the status \<^verbatim>\<open>failed\<close>; with a valid \<^verbatim>\<open>server_type\<close> it fails with one of
  the three messages about the shared secret exactly in that case; and whenever it
  returns with the status \<^verbatim>\<open>success\<close> the shared secret is valid and is stored, as a
  string, under \<^verbatim>\<open>sharedSecret\<close> of the desired payload.
\<close>

theorem new_server_shared_secret:
  assumes h: "have_auth st = Some hv" and nex: "\<not> exists hv"
  shows "(invalid_shared_secret (dget (params aps) ''shared_secret'') \<longrightarrow>
            (\<exists>st'. get_want_authentication_policy_server aps st = Returned st'
                \<and> status st' = ''failed''))
       \<and> (dget (params aps) ''server_type'' \<in> {PStr ''ISE'', PStr ''AAA'', PNone} \<longrightarrow>
            ((\<exists>st' m. get_want_authentication_policy_server aps st = Returned st'
                \<and> status st' = ''failed'' \<and> msg st' = PStr m \<and> m \<in> secret_msgs)
             \<longleftrightarrow> invalid_shared_secret (dget (params aps) ''shared_secret'')))
       \<and> (get_want_authentication_policy_server aps st = Returned st' \<and> status st' = ''success'' \<longrightarrow>
            \<not> invalid_shared_secret (dget (params aps) ''shared_secret'')
            \<and> (\<exists>w. want_auth st' = Some w
                 \<and> scalars w ''sharedSecret''
                     = Some (PStr (py_str (dget (params aps) ''shared_secret'')))))"
proof (intro conjI impI)
  assume i: "invalid_shared_secret (dget (params aps) ''shared_secret'')"
  from want_scalars_invalid_secret(1) [OF nex i] obtain m where
    "want_scalars hv (params aps) = Failed m" by blast
  then show "\<exists>st'. get_want_authentication_policy_server aps st = Returned st'
                \<and> status st' = ''failed''"
    using h by (simp add: get_want_authentication_policy_server_def fail_with_def)
next
  assume t: "dget (params aps) ''server_type'' \<in> {PStr ''ISE'', PStr ''AAA'', PNone}"
  show "(\<exists>st' m. get_want_authentication_policy_server aps st = Returned st'
                \<and> status st' = ''failed'' \<and> msg st' = PStr m \<and> m \<in> secret_msgs)
             \<longleftrightarrow> invalid_shared_secret (dget (params aps) ''shared_secret'')"
  proof
    assume "\<exists>st' m. get_want_authentication_policy_server aps st = Returned st'
                \<and> status st' = ''failed'' \<and> msg st' = PStr m \<and> m \<in> secret_msgs"
    then obtain st' m where
      g: "get_want_authentication_policy_server aps st = Returned st'" and
      s: "status st' = ''failed''" and m: "msg st' = PStr m" and ms: "m \<in> secret_msgs"
      by blast
    from get_want_failed [OF h g s m] show "invalid_shared_secret (dget (params aps) ''shared_secret'')"
      using ms want_scalars_secret_failure [OF nex] want_ise_msgs wait_time_msgs by blast
  next
    assume i: "invalid_shared_secret (dget (params aps) ''shared_secret'')"
    from want_scalars_invalid_secret(2) [OF nex i t] obtain m where
      "m \<in> secret_msgs" "want_scalars hv (params aps) = Failed m" by blast
    then show "\<exists>st' m. get_want_authentication_policy_server aps st = Returned st'
                \<and> status st' = ''failed'' \<and> msg st' = PStr m \<and> m \<in> secret_msgs"
      using h by (simp add: get_want_authentication_policy_server_def fail_with_def)
  qed
next
  assume a: "get_want_authentication_policy_server aps st = Returned st' \<and> status st' = ''success''"
  then have g: "get_want_authentication_policy_server aps st = Returned st'"
    and s: "status st' = ''success''" by simp_all
  from get_want_success [OF h g s] obtain a w where
    ws: "want_scalars hv (params aps) = Next a" and w: "want_auth st' = Some w" and
    k: "\<forall>k. k \<noteq> ''pxgridEnabled'' \<and> k \<noteq> ''useDnacCertForPxgrid'' \<longrightarrow> scalars w k = a k"
    by blast
  from want_scalars_new_secret [OF nex ws] k w
  show "\<not> invalid_shared_secret (dget (params aps) ''shared_secret'')"
    and "\<exists>w. want_auth st' = Some w
                 \<and> scalars w ''sharedSecret''
                     = Some (PStr (py_str (dget (params aps) ''shared_secret'')))"
    by simp_all
qed

theorem new_server_shared_secret_witness:
  "have_auth absent_state = Some absent_server \<and> \<not> exists absent_server
   \<and> invalid_shared_secret (dget (params (new_server_entry ''ab'' ''RADIUS'')) ''shared_secret'')
   \<and> (\<exists>st'. get_want_authentication_policy_server (new_server_entry ''ab'' ''RADIUS'') absent_state
                = Returned st'
          \<and> status st' = ''failed'')
   \<and> dget (params (new_server_entry ''ab'' ''RADIUS'')) ''server_type''
         \<in> {PStr ''ISE'', PStr ''AAA'', PNone}
   \<and> (\<exists>st' m. get_want_authentication_policy_server (new_server_entry ''ab'' ''RADIUS'') absent_state
                = Returned st'
          \<and> status st' = ''failed'' \<and> msg st' = PStr m \<and> m \<in> secret_msgs)
   \<and> (\<exists>st'. get_want_authentication_policy_server (new_server_entry ''secret'' ''RADIUS'')
                absent_state = Returned st'
          \<and> status st' = ''success''
          \<and> \<not> invalid_shared_secret
                (dget (params (new_server_entry ''secret'' ''RADIUS'')) ''shared_secret'')
          \<and> (\<exists>w. want_auth st' = Some w \<and> scalars w ''sharedSecret'' = Some (PStr ''secret'')))"
proof -
  have a: "have_auth absent_state = Some absent_server" "\<not> exists absent_server"
    by (simp_all add: absent_state_def absent_server_def)
  have b: "invalid_shared_secret (dget (params (new_server_entry ''ab'' ''RADIUS'')) ''shared_secret'')"
    "dget (params (new_server_entry ''ab'' ''RADIUS'')) ''server_type''
       \<in> {PStr ''ISE'', PStr ''AAA'', PNone}"
    by (simp_all add: invalid_shared_secret_def new_server_entry_def dget_def)
  have c: "py_str (dget (params (new_server_entry ''secret'' ''RADIUS'')) ''shared_secret'') = ''secret''"
    by (simp add: new_server_entry_def dget_def)
  have "\<exists>st'. get_want_authentication_policy_server (new_server_entry ''secret'' ''RADIUS'')
                absent_state = Returned st' \<and> status st' = ''success''"
    by (simp add: want_defs new_server_entry_def absent_state_def absent_server_def start_state_def)
  then obtain st' where
    g: "get_want_authentication_policy_server (new_server_entry ''secret'' ''RADIUS'') absent_state
          = Returned st' \<and> status st' = ''success''"
    by blast
  show ?thesis
    using a b g
      new_server_shared_secret [OF a, of "new_server_entry ''ab'' ''RADIUS''" st']
      new_server_shared_secret [OF a, of "new_server_entry ''secret'' ''RADIUS''" st']
    unfolding c
    by blast
qed

subsection \<open>What the methods send\<close>

lemma poll_task_grows:
  "\<exists>evs. events (final (poll_task t v a polls st)) = events st @ evs
         \<and> list_all (\<lambda>e. \<not> mutating e) evs
         \<and> result_msg (final (poll_task t v a polls st)) = result_msg st"
proof (induction polls arbitrary: st)
  case Nil
  show ?case by simp
next
  case (Cons x polls)
  obtain end_time td where x: "x = (end_time, td)" by (cases x)
  let ?st' = "emit (Sleep_task (max_timeout st)) st"
  from Cons.IH [of ?st'] obtain evs where
    g: "events (final (poll_task t v a polls ?st'))
          = events st @ Sleep_task (max_timeout st) # evs"
    and q: "list_all (\<lambda>e. \<not> mutating e) (Sleep_task (max_timeout st) # evs)"
    and r: "result_msg (final (poll_task t v a polls ?st')) = result_msg st"
    by (auto simp: emit_def mutating_def)
  show ?case
    unfolding x
    using g q r
    by (auto simp: Let_def split: option.splits sum.splits)
qed

lemma check_status_grows:
  "\<exists>evs. events (final (check_auth_server_response_status env r v a st)) = events st @ evs
         \<and> list_all (\<lambda>e. \<not> mutating e) evs
         \<and> result_msg (final (check_auth_server_response_status env r v a st)) = result_msg st"
  using poll_task_grows [where v = v and a = a and polls = "task_polls env" and st = st]
  by (auto simp: check_auth_server_response_status_def split: option.splits)

lemma ise_integration_grows:
  "\<exists>evs. list_all (\<lambda>e. \<not> mutating e) evs
     \<and> (case ise_integration env ip st of
           Inl out \<Rightarrow> events (final out) = events st @ evs \<and> result_msg (final out) = result_msg st
         | Inr st2 \<Rightarrow> events st2 = events st @ evs \<and> result_msg st2 = result_msg st)"
  by (auto simp: ise_integration_def accept_cisco_ise_server_certificate_def emit_def mutating_def
        Let_def split: sum.splits option.splits)

lemma events_set_result_msg [simp]: "events (set_result_msg ip m st) = events st"
  by (simp add: set_result_msg_def)

lemma events_update_entry [simp]: "events (update_entry ip f st) = events st"
  by (simp add: update_entry_def)

lemma result_msg_update_entry [simp]: "result_msg (update_entry ip f st) = result_msg st"
  by (simp add: update_entry_def)

lemma result_msg_set [simp]: "result_msg (set_result_msg ip m st) = (result_msg st)(ip \<mapsto> m)"
  by (simp add: set_result_msg_def)

lemma create_grows:
  "\<exists>evs. events (final (create_auth_policy_server env ip w st)) = events st @ Add_call w # evs
         \<and> list_all (\<lambda>e. \<not> mutating e) evs"
proof -
  let ?c = "check_auth_server_response_status env (add_response env)
             [''successfully created aaa settings'', ''operation sucessful'']
             ''add_authentication_and_policy_server_access_configuration''
             (emit (Add_call w) st)"
  from check_status_grows [where env = env and r = "add_response env" and st = "emit (Add_call w) st"]
  obtain evs1 where
    e1: "events (final ?c) = events st @ Add_call w # evs1" and
    q1: "list_all (\<lambda>e. \<not> mutating e) evs1"
    by (auto simp: emit_def)
  show ?thesis
  proof (cases ?c)
    case (Returned st1)
    show ?thesis
    proof (cases "status st1 = ''failed''")
      case True
      then show ?thesis using Returned e1 q1 by (auto simp: create_auth_policy_server_def)
    next
      case False
      show ?thesis
      proof (cases "truthy (dget (scalars w) ''isIseEnabled'')
                      \<and> validation_string st1 = ''operation sucessful''")
        case False
        then show ?thesis using Returned e1 q1 \<open>status st1 \<noteq> ''failed''\<close>
          by (auto simp: create_auth_policy_server_def)
      next
        case True
        from ise_integration_grows [where env = env and ip = ip and st = st1] obtain evs2 where
          q2: "list_all (\<lambda>e. \<not> mutating e) evs2" and
          c: "(case ise_integration env ip st1 of
                 Inl out \<Rightarrow> events (final out) = events st1 @ evs2 \<and> result_msg (final out) = result_msg st1
               | Inr st2 \<Rightarrow> events st2 = events st1 @ evs2 \<and> result_msg st2 = result_msg st1)"
          by blast
        have "events (final (create_auth_policy_server env ip w st))
                = events st @ Add_call w # (evs1 @ evs2)"
          using Returned e1 True c \<open>status st1 \<noteq> ''failed''\<close>
          by (cases "ise_integration env ip st1") (auto simp: create_auth_policy_server_def)
        then show ?thesis using q1 q2 by (intro exI [of _ "evs1 @ evs2"]) simp
      qed
    qed
  next
    case (Exited st1)
    then show ?thesis using e1 q1 by (auto simp: create_auth_policy_server_def)
  next
    case (Crashed e st1)
    then show ?thesis using e1 q1 by (auto simp: create_auth_policy_server_def)
  next
    case (Unfinished st1)
    then show ?thesis using e1 q1 by (auto simp: create_auth_policy_server_def)
  qed
qed

lemma edit_rejected:
  assumes "details hv = Some d" and "status (format_payload_for_update d w st) = ''failed''"
  shows "edit_auth_policy_server cmp env ip hv w st = Exited (format_payload_for_update d w st)"
  using assms by (simp add: edit_auth_policy_server_def check_return_status_def)

lemma edit_noop:
  assumes "details hv = Some d" and "status (format_payload_for_update d w st) \<noteq> ''failed''"
    and "want_auth (format_payload_for_update d w st) = Some w1"
    and "\<not> (truthy (dget (d_fields d) ''isIseEnabled'')
            \<or> requires_update cmp (d_fields d) (scalars w1) authentication_policy_server_obj_params)"
  shows "edit_auth_policy_server cmp env ip hv w st
           = Returned (set_result_msg ip noop_msg
                (update_entry ip (\<lambda>e. e\<lparr>catalyst_params := Some d, entry_Id := Some (server_id hv)\<rparr>)
                   (format_payload_for_update d w st)))"
  using assms by (simp add: edit_auth_policy_server_def check_return_status_def noop_msg_def)

lemma edit_sent:
  assumes d: "details hv = Some d" and ok: "status (format_payload_for_update d w st) \<noteq> ''failed''"
    and w1: "want_auth (format_payload_for_update d w st) = Some w1"
    and u: "truthy (dget (d_fields d) ''isIseEnabled'')
            \<or> requires_update cmp (d_fields d) (scalars w1) authentication_policy_server_obj_params"
  shows "\<exists>evs. events (final (edit_auth_policy_server cmp env ip hv w st))
                  = events st @ Edit_call w1 (server_id hv) # evs
           \<and> list_all (\<lambda>e. \<not> mutating e) evs
           \<and> (result_msg (final (edit_auth_policy_server cmp env ip hv w st)) ip = result_msg st ip
               \<or> result_msg (final (edit_auth_policy_server cmp env ip hv w st)) ip
                   = Some ''Authentication and Policy Server Updated Successfully'')"
proof -
  let ?st1 = "format_payload_for_update d w st"
  let ?c = "check_auth_server_response_status env (edit_response env)
              [''successfully updated aaa settings'', ''operation sucessful'']
              ''edit_authentication_and_policy_server_access_configuration''
              (emit (Edit_call w1 (server_id hv)) ?st1)"
  have ev1: "events ?st1 = events st" and rm1: "result_msg ?st1 = result_msg st"
    by (simp_all add: format_payload_for_update_def split: prod.splits option.splits)
  from check_status_grows [where env = env and r = "edit_response env"
      and st = "emit (Edit_call w1 (server_id hv)) ?st1"]
  obtain evs where
    e: "events (final ?c) = events st @ Edit_call w1 (server_id hv) # evs" and
    q: "list_all (\<lambda>e. \<not> mutating e) evs" and
    r: "result_msg (final ?c) = result_msg st"
    using ev1 rm1 by (auto simp: emit_def)
  have eq: "edit_auth_policy_server cmp env ip hv w st =
        (case ?c of
           Returned st2 \<Rightarrow>
             if status st2 = ''failed'' then Returned st2
             else Returned
               (set_result_msg ip ''Authentication and Policy Server Updated Successfully''
                  (update_entry ip (\<lambda>e. e\<lparr>entry_Id := Some (server_id hv)\<rparr>) st2))
         | out \<Rightarrow> out)"
    using d ok w1 u by (simp add: edit_auth_policy_server_def check_return_status_def)
  show ?thesis
    unfolding eq using e q r
    by (cases ?c) (auto intro: exI [of _ evs])
qed

lemma fup_other:
  "k \<notin> set items \<Longrightarrow> dget (snd (format_update_params h w items)) k = dget w k"
  by (auto simp: format_update_params_result dget_def dest: set_takeWhileD)

lemma format_status_indep:
  "status (format_payload_for_update d w st) = status (format_payload_for_update d w st')"
  by (simp add: format_payload_for_update_def split: prod.splits option.splits)

lemma format_payload_result_msg: "result_msg (format_payload_for_update d w st) = result_msg st"
  by (simp add: format_payload_for_update_def split: prod.splits option.splits)

lemma requires_update_fields:
  "requires_update cmp h w authentication_policy_server_obj_params
     \<longleftrightarrow> (\<not> cmp (dget h ''protocol'') (dget w ''protocol'')
          \<or> \<not> cmp (dget h ''retries'') (dget w ''retries'')
          \<or> \<not> cmp (dget h ''timeoutSeconds'') (dget w ''timeoutSeconds''))"
  by (simp add: requires_update_def authentication_policy_server_obj_params_def get_obj_params_def)

lemma requires_update_after_format:
  "requires_update cmp (d_fields d)
     (snd (format_update_params (d_fields d) (scalars w) update_params))
     authentication_policy_server_obj_params
   = requires_update cmp (d_fields d) (scalars w) authentication_policy_server_obj_params"
proof -
  have "dget (snd (format_update_params (d_fields d) (scalars w) update_params)) ''protocol''
          = dget (scalars w) ''protocol''"
    "dget (snd (format_update_params (d_fields d) (scalars w) update_params)) ''retries''
          = dget (scalars w) ''retries''"
    "dget (snd (format_update_params (d_fields d) (scalars w) update_params)) ''timeoutSeconds''
          = dget (scalars w) ''timeoutSeconds''"
    by (rule fup_other, simp add: update_params_def)+
  then show ?thesis unfolding requires_update_fields by simp
qed

lemma get_diff_merged_existing:
  assumes "have_auth st = Some hv" and "exists hv" and "want_auth st = Some w"
  shows "get_diff_merged cmp env (Some aps) st
           = edit_auth_policy_server cmp env (dget (params aps) ''server_ip_address'') hv w
               (st\<lparr>result_response := (result_response st)
                      (dget (params aps) ''server_ip_address'' \<mapsto> empty_entry)\<rparr>)"
  using assms by (simp add: get_diff_merged_def update_auth_policy_server_def Let_def)

lemmas concrete_defs = radius_state_def radius_server_def radius_details_def start_state_def
  wanted_state_def existing_want_def ise_state_def ise_server_def ise_details_def
  address_only_entry_def protocol_entry_def absent_server_def quiet_env_def

lemmas format_defs = format_payload_for_update_def update_params_def dget_def

subsection \<open>Editing a server that is not an ISE server\<close>

text \<open>
  C1, as the claim states it, fails: the current protocol \<^verbatim>\<open>RADIUS\<close> and the desired
  protocol \<^verbatim>\<open>TACACS\<close> differ (by Python's equality taken for
  \<^verbatim>\<open>dnac_compare_equality\<close>), the server is no ISE server, and \<^verbatim>\<open>get_diff_merged\<close> sends
  nothing: \<^verbatim>\<open>format_payload_for_update\<close> refuses the change of protocol and the module
  ends. The state is the one \<^verbatim>\<open>get_want\<close> returns for that playbook entry.
\<close>

theorem protocol_differs_but_no_edit_call:
  "get_want (Some (protocol_entry ''TACACS'')) radius_state = Returned (wanted_state ''TACACS'' ''3'')
   \<and> have_auth (wanted_state ''TACACS'' ''3'') = Some radius_server
   \<and> exists radius_server
   \<and> dget (d_fields radius_details) ''isIseEnabled'' = PBool False
   \<and> dget (d_fields radius_details) ''protocol'' = PStr ''RADIUS''
   \<and> dget (scalars (existing_want False ''TACACS'' ''3'')) ''protocol'' = PStr ''TACACS''
   \<and> \<not> py_eq (PStr ''RADIUS'') (PStr ''TACACS'')
   \<and> exited (get_diff_merged py_eq quiet_env (Some (protocol_entry ''TACACS''))
                (wanted_state ''TACACS'' ''3''))
   \<and> new_events (wanted_state ''TACACS'' ''3'')
         (get_diff_merged py_eq quiet_env (Some (protocol_entry ''TACACS''))
            (wanted_state ''TACACS'' ''3'')) = []"
  by (simp add: get_want_def is_empty_dict_def check_return_status_def want_defs protocol_entry_def
        radius_state_def radius_server_def radius_details_def start_state_def wanted_state_def
        existing_want_def get_diff_merged_def update_auth_policy_server_def
        edit_auth_policy_server_def format_payload_for_update_def update_params_def new_events_def)

text \<open>
  C1, amended. For an existing server whose current details do not report
  \<^verbatim>\<open>isIseEnabled\<close> (it is false or absent): when \<^verbatim>\<open>format_payload_for_update\<close> refuses the
  desired payload, \<^verbatim>\<open>get_diff_merged\<close> ends the module and sends nothing; when it accepts
  it, \<^verbatim>\<open>get_diff_merged\<close> sends the edit call exactly when \<^verbatim>\<open>protocol\<close>, \<^verbatim>\<open>retries\<close>
  or \<^verbatim>\<open>timeoutSeconds\<close> differs between the current details and the desired payload by
  \<^verbatim>\<open>dnac_compare_equality\<close>, and when none differs it sends nothing and sets the message of
  the address to \<^verbatim>\<open>Authentication and Policy Server doesn't require an update\<close>.
\<close>

theorem edit_iff_allow_listed_field_differs:
  assumes h: "have_auth st = Some hv" and ex: "exists hv" and d: "details hv = Some d"
    and w: "want_auth st = Some w"
    and ise: "\<not> truthy (dget (d_fields d) ''isIseEnabled'')"
  shows "(status (format_payload_for_update d w st) = ''failed'' \<longrightarrow>
            (\<exists>st'. get_diff_merged dnac_compare_equality env (Some aps) st = Exited st'
                \<and> events st' = events st))
       \<and> (status (format_payload_for_update d w st) \<noteq> ''failed'' \<longrightarrow>
            (list_ex is_edit (new_events st (get_diff_merged dnac_compare_equality env (Some aps) st))
               \<longleftrightarrow> requires_update dnac_compare_equality (d_fields d) (scalars w)
                     authentication_policy_server_obj_params)
            \<and> (\<not> requires_update dnac_compare_equality (d_fields d) (scalars w)
                    authentication_policy_server_obj_params \<longrightarrow>
                 (\<exists>st'. get_diff_merged dnac_compare_equality env (Some aps) st = Returned st'
                     \<and> events st' = events st
                     \<and> result_msg st' (dget (params aps) ''server_ip_address'')
                         = Some ''Authentication and Policy Server doesn't require an update'')))
       \<and> (requires_update dnac_compare_equality (d_fields d) (scalars w)
             authentication_policy_server_obj_params
           \<longleftrightarrow> (\<not> dnac_compare_equality (dget (d_fields d) ''protocol'') (dget (scalars w) ''protocol'')
                \<or> \<not> dnac_compare_equality (dget (d_fields d) ''retries'') (dget (scalars w) ''retries'')
                \<or> \<not> dnac_compare_equality (dget (d_fields d) ''timeoutSeconds'')
                                              (dget (scalars w) ''timeoutSeconds'')))"
proof -
  let ?ip = "dget (params aps) ''server_ip_address''"
  let ?st0 = "st\<lparr>result_response := (result_response st)(?ip \<mapsto> empty_entry)\<rparr>"
  let ?st1 = "format_payload_for_update d w ?st0"
  let ?w1 = "w\<lparr>scalars := snd (format_update_params (d_fields d) (scalars w) update_params)\<rparr>"
  let ?out = "get_diff_merged dnac_compare_equality env (Some aps) st"
  let ?req = "requires_update dnac_compare_equality (d_fields d) (scalars w)
                authentication_policy_server_obj_params"
  have out: "?out = edit_auth_policy_server dnac_compare_equality env ?ip hv w ?st0"
    by (rule get_diff_merged_existing [OF h ex w])
  have s: "status ?st1 = status (format_payload_for_update d w st)"
    by (rule format_status_indep)
  have w1: "want_auth ?st1 = Some ?w1" by (rule format_payload_want)
  have req: "requires_update dnac_compare_equality (d_fields d) (scalars ?w1)
               authentication_policy_server_obj_params = ?req"
    using requires_update_after_format [of dnac_compare_equality d w] by simp
  have a: "\<exists>st'. ?out = Exited st' \<and> events st' = events st"
    if "status (format_payload_for_update d w st) = ''failed''"
    using edit_rejected [OF d, of w ?st0] that s out by (simp add: format_payload_events)
  have b: "\<exists>st'. ?out = Returned st' \<and> events st' = events st
                     \<and> result_msg st' ?ip = Some ''Authentication and Policy Server doesn't require an update''"
    if "status (format_payload_for_update d w st) \<noteq> ''failed''" "\<not> ?req"
    using edit_noop [OF d _ w1, of dnac_compare_equality env ?ip] that s out ise req
    by (simp add: format_payload_events noop_msg_def)
  have c: "list_ex is_edit (new_events st ?out)"
    if "status (format_payload_for_update d w st) \<noteq> ''failed''" "?req"
  proof -
    from edit_sent [OF d _ w1, of dnac_compare_equality env ?ip] that s req
    obtain evs where "events (final ?out) = events st @ Edit_call ?w1 (server_id hv) # evs"
      unfolding out by (auto simp: format_payload_events)
    then show ?thesis by (simp add: new_events_def)
  qed
  have c': "\<not> list_ex is_edit (new_events st ?out)"
    if "status (format_payload_for_update d w st) \<noteq> ''failed''" "\<not> ?req"
    using b [OF that] by (auto simp: new_events_def)
  show ?thesis
    using a b c c' requires_update_fields [of dnac_compare_equality "d_fields d" "scalars w"]
    by blast
qed

theorem edit_iff_allow_listed_field_differs_witness:
  "have_auth (wanted_state ''RADIUS'' ''2'') = Some radius_server \<and> exists radius_server
   \<and> details radius_server = Some radius_details
   \<and> want_auth (wanted_state ''RADIUS'' ''2'') = Some (existing_want False ''RADIUS'' ''2'')
   \<and> \<not> truthy (dget (d_fields radius_details) ''isIseEnabled'')
   \<and> status (format_payload_for_update radius_details (existing_want False ''RADIUS'' ''2'')
               (wanted_state ''RADIUS'' ''2'')) \<noteq> ''failed''
   \<and> requires_update py_eq (d_fields radius_details) (scalars (existing_want False ''RADIUS'' ''2''))
         authentication_policy_server_obj_params
   \<and> list_ex is_edit
         (new_events (wanted_state ''RADIUS'' ''2'')
            (get_diff_merged py_eq quiet_env (Some address_only_entry) (wanted_state ''RADIUS'' ''2'')))
   \<and> \<not> requires_update py_eq (d_fields radius_details) (scalars (existing_want False ''RADIUS'' ''3''))
         authentication_policy_server_obj_params
   \<and> (\<exists>st'. get_diff_merged py_eq quiet_env (Some address_only_entry) (wanted_state ''RADIUS'' ''3'')
                = Returned st'
          \<and> events st' = events (wanted_state ''RADIUS'' ''3'')
          \<and> result_msg st' (dget (params address_only_entry) ''server_ip_address'')
              = Some ''Authentication and Policy Server doesn't require an update'')
   \<and> status (format_payload_for_update radius_details (existing_want False ''TACACS'' ''3'')
               (wanted_state ''TACACS'' ''3'')) = ''failed''
   \<and> (\<exists>st'. get_diff_merged py_eq quiet_env (Some address_only_entry) (wanted_state ''TACACS'' ''3'')
                = Exited st'
          \<and> events st' = events (wanted_state ''TACACS'' ''3''))"
proof -
  have a: "have_auth (wanted_state p r) = Some radius_server" "exists radius_server"
    "details radius_server = Some radius_details"
    "want_auth (wanted_state p r) = Some (existing_want False p r)"
    "\<not> truthy (dget (d_fields radius_details) ''isIseEnabled'')" for p r
    by (simp_all add: concrete_defs dget_def)
  have b: "status (format_payload_for_update radius_details (existing_want False ''RADIUS'' ''2'')
               (wanted_state ''RADIUS'' ''2'')) \<noteq> ''failed''"
    "status (format_payload_for_update radius_details (existing_want False ''RADIUS'' ''3'')
               (wanted_state ''RADIUS'' ''3'')) \<noteq> ''failed''"
    "status (format_payload_for_update radius_details (existing_want False ''TACACS'' ''3'')
               (wanted_state ''TACACS'' ''3'')) = ''failed''"
    by (simp_all add: concrete_defs format_defs)
  have c: "requires_update py_eq (d_fields radius_details) (scalars (existing_want False ''RADIUS'' ''2''))
         authentication_policy_server_obj_params"
    "\<not> requires_update py_eq (d_fields radius_details) (scalars (existing_want False ''RADIUS'' ''3''))
         authentication_policy_server_obj_params"
    by (simp_all add: concrete_defs requires_update_def authentication_policy_server_obj_params_def
          get_obj_params_def dget_def)
  show ?thesis
    using a b c
      edit_iff_allow_listed_field_differs [OF a, of "''RADIUS''" "''2''" py_eq quiet_env address_only_entry]
      edit_iff_allow_listed_field_differs [OF a, of "''RADIUS''" "''3''" py_eq quiet_env address_only_entry]
      edit_iff_allow_listed_field_differs [OF a, of "''TACACS''" "''3''" py_eq quiet_env address_only_entry]
    by blast
qed

subsection \<open>Editing an ISE server\<close>

text \<open>
  C9. For an existing server whose current details report \<^verbatim>\<open>isIseEnabled\<close> true, whatever
  \<^verbatim>\<open>dnac_compare_equality\<close> says of the fields: when \<^verbatim>\<open>format_payload_for_update\<close> accepts
  the desired payload, the first thing \<^verbatim>\<open>get_diff_merged\<close> sends is the edit call, with
  the formatted payload and the id of the server, and no other configuration call follows;
  when it refuses, the module ends and nothing is sent. The message
  \<^verbatim>\<open>doesn't require an update\<close> is never set for the address, and \<^verbatim>\<open>get_diff_merged\<close>
  never returns without having sent something.
\<close>

theorem ise_server_always_edited:
  assumes h: "have_auth st = Some hv" and ex: "exists hv" and d: "details hv = Some d"
    and w: "want_auth st = Some w"
    and ise: "truthy (dget (d_fields d) ''isIseEnabled'')"
  shows "(status (format_payload_for_update d w st) \<noteq> ''failed'' \<longrightarrow>
            (\<exists>w1 evs. new_events st (get_diff_merged dnac_compare_equality env (Some aps) st)
                        = Edit_call w1 (server_id hv) # evs
                \<and> want_auth (format_payload_for_update d w st) = Some w1
                \<and> list_all (\<lambda>e. \<not> mutating e) evs))
       \<and> (status (format_payload_for_update d w st) = ''failed'' \<longrightarrow>
            (\<exists>st'. get_diff_merged dnac_compare_equality env (Some aps) st = Exited st'
                \<and> events st' = events st))
       \<and> (result_msg st (dget (params aps) ''server_ip_address'')
             \<noteq> Some ''Authentication and Policy Server doesn't require an update'' \<longrightarrow>
           result_msg (final (get_diff_merged dnac_compare_equality env (Some aps) st))
               (dget (params aps) ''server_ip_address'')
             \<noteq> Some ''Authentication and Policy Server doesn't require an update'')
       \<and> \<not> (\<exists>st'. get_diff_merged dnac_compare_equality env (Some aps) st = Returned st'
                \<and> events st' = events st)"
proof -
  let ?ip = "dget (params aps) ''server_ip_address''"
  let ?st0 = "st\<lparr>result_response := (result_response st)(?ip \<mapsto> empty_entry)\<rparr>"
  let ?st1 = "format_payload_for_update d w ?st0"
  let ?w1 = "w\<lparr>scalars := snd (format_update_params (d_fields d) (scalars w) update_params)\<rparr>"
  let ?out = "get_diff_merged dnac_compare_equality env (Some aps) st"
  have out: "?out = edit_auth_policy_server dnac_compare_equality env ?ip hv w ?st0"
    by (rule get_diff_merged_existing [OF h ex w])
  have s: "status ?st1 = status (format_payload_for_update d w st)"
    by (rule format_status_indep)
  have w1: "want_auth ?st1 = Some ?w1" by (rule format_payload_want)
  have w1': "want_auth (format_payload_for_update d w st) = Some ?w1" by (rule format_payload_want)
  have rej: "?out = Exited ?st1 \<and> events ?st1 = events st \<and> result_msg ?st1 = result_msg st"
    if "status (format_payload_for_update d w st) = ''failed''"
    using edit_rejected [OF d, of w ?st0] that s out
    by (simp add: format_payload_events format_payload_result_msg)
  have sent: "\<exists>evs. events (final ?out) = events st @ Edit_call ?w1 (server_id hv) # evs
           \<and> list_all (\<lambda>e. \<not> mutating e) evs
           \<and> (result_msg (final ?out) ?ip = result_msg st ?ip
               \<or> result_msg (final ?out) ?ip
                   = Some ''Authentication and Policy Server Updated Successfully'')"
    if "status (format_payload_for_update d w st) \<noteq> ''failed''"
    using edit_sent [OF d _ w1, of dnac_compare_equality env ?ip] that s ise
    unfolding out by (simp add: format_payload_events)
  have c1: "\<exists>w1 evs. new_events st ?out = Edit_call w1 (server_id hv) # evs
                \<and> want_auth (format_payload_for_update d w st) = Some w1
                \<and> list_all (\<lambda>e. \<not> mutating e) evs"
    if ok: "status (format_payload_for_update d w st) \<noteq> ''failed''"
  proof -
    from sent [OF ok] obtain evs where
      "events (final ?out) = events st @ Edit_call ?w1 (server_id hv) # evs"
      "list_all (\<lambda>e. \<not> mutating e) evs" by blast
    then show ?thesis using w1' by (auto simp: new_events_def)
  qed
  have c2: "\<exists>st'. ?out = Exited st' \<and> events st' = events st"
    if "status (format_payload_for_update d w st) = ''failed''"
    using rej [OF that] by blast
  have c3: "result_msg (final ?out) ?ip
             \<noteq> Some ''Authentication and Policy Server doesn't require an update''"
    if n: "result_msg st ?ip \<noteq> Some ''Authentication and Policy Server doesn't require an update''"
  proof (cases "status (format_payload_for_update d w st) = ''failed''")
    case True
    then show ?thesis using rej [OF True] n by simp
  next
    case False
    from sent [OF False] show ?thesis using n by auto
  qed
  have c4: "\<not> (\<exists>st'. ?out = Returned st' \<and> events st' = events st)"
  proof (cases "status (format_payload_for_update d w st) = ''failed''")
    case True
    then show ?thesis using rej [OF True] by simp
  next
    case False
    from sent [OF False] show ?thesis by auto
  qed
  show ?thesis using c1 c2 c3 c4 by blast
qed

theorem ise_server_always_edited_witness:
  "have_auth ise_state = Some ise_server \<and> exists ise_server \<and> details ise_server = Some ise_details
   \<and> want_auth ise_state = Some (existing_want True ''RADIUS'' ''3'')
   \<and> truthy (dget (d_fields ise_details) ''isIseEnabled'')
   \<and> \<not> requires_update py_eq (d_fields ise_details) (scalars (existing_want True ''RADIUS'' ''3''))
         authentication_policy_server_obj_params
   \<and> status (format_payload_for_update ise_details (existing_want True ''RADIUS'' ''3'') ise_state)
       \<noteq> ''failed''
   \<and> (\<exists>w1 evs. new_events ise_state (get_diff_merged py_eq quiet_env (Some address_only_entry) ise_state)
                   = Edit_call w1 (server_id ise_server) # evs
          \<and> list_all (\<lambda>e. \<not> mutating e) evs)
   \<and> result_msg (final (get_diff_merged py_eq quiet_env (Some address_only_entry) ise_state))
         (dget (params address_only_entry) ''server_ip_address'')
       \<noteq> Some ''Authentication and Policy Server doesn't require an update''"
proof -
  have a: "have_auth ise_state = Some ise_server" "exists ise_server"
    "details ise_server = Some ise_details"
    "want_auth ise_state = Some (existing_want True ''RADIUS'' ''3'')"
    "truthy (dget (d_fields ise_details) ''isIseEnabled'')"
    by (simp_all add: concrete_defs dget_def)
  have b: "status (format_payload_for_update ise_details (existing_want True ''RADIUS'' ''3'') ise_state)
       \<noteq> ''failed''"
    by (simp add: concrete_defs format_defs)
  have c: "\<not> requires_update py_eq (d_fields ise_details) (scalars (existing_want True ''RADIUS'' ''3''))
         authentication_policy_server_obj_params"
    by (simp add: concrete_defs requires_update_def authentication_policy_server_obj_params_def
          get_obj_params_def dget_def)
  have n: "result_msg ise_state (dget (params address_only_entry) ''server_ip_address'')
             \<noteq> Some ''Authentication and Policy Server doesn't require an update''"
    by (simp add: concrete_defs)
  show ?thesis
    using a b c n ise_server_always_edited [OF a, of py_eq quiet_env address_only_entry]
    by blast
qed

subsection \<open>The configuration calls of one element\<close>

lemma final_checked [simp]: "final (checked out) = final out"
  by (cases out) (auto simp: check_return_status_def)

lemma quiet_filter: "list_all (\<lambda>e. \<not> mutating e) evs \<Longrightarrow> filter mutating evs = []"
  by (induction evs) auto

lemma get_want_aps_frame:
  "events (final (get_want_authentication_policy_server aps st)) = events st
   \<and> have_auth (final (get_want_authentication_policy_server aps st)) = have_auth st"
  by (auto simp: get_want_authentication_policy_server_def fail_with_def want_done_def Let_def
           split: option.splits step.splits)

lemma get_want_aps_returned:
  assumes "get_want_authentication_policy_server aps st = Returned st2" and "status st2 \<noteq> ''failed''"
  shows "\<exists>w. want_auth st2 = Some w"
  using assms
  by (auto simp: get_want_authentication_policy_server_def fail_with_def want_done_def Let_def
           split: option.splits step.splits if_splits)

lemma get_have_without_config:
  "\<exists>st1. checked (get_have env None (reset_values st)) = Returned st1
         \<and> events st1 = events st"
  by (simp add: get_have_def check_return_status_def reset_values_def)

lemma get_have_without_address:
  "dget (params aps) ''server_ip_address'' = PNone \<Longrightarrow>
     \<exists>st1. checked (get_have env (Some aps) (reset_values st)) = Exited st1 \<and> events st1 = events st"
  by (simp add: get_have_def get_have_authentication_policy_server_def fail_with_def
        check_return_status_def reset_values_def)

lemma get_have_with_address:
  "dget (params aps) ''server_ip_address'' \<noteq> PNone \<Longrightarrow>
     \<exists>st1. checked (get_have env (Some aps) (reset_values st)) = Returned st1
         \<and> events st1 = events st @ [Get_servers_call]
         \<and> have_auth st1 = Some (current_server env)"
  by (simp add: get_have_def get_have_authentication_policy_server_def fail_with_def
        check_return_status_def reset_values_def emit_def)

lemma get_want_frame:
  "events (final (checked (get_want config st))) = events st
   \<and> have_auth (final (checked (get_want config st))) = have_auth st"
proof (cases config)
  case None
  then show ?thesis by (simp add: get_want_def check_return_status_def)
next
  case (Some aps)
  show ?thesis
  proof (cases "is_empty_dict aps")
    case True
    then show ?thesis using Some by (simp add: get_want_def check_return_status_def)
  next
    case False
    show ?thesis
      using Some False get_want_aps_frame [of aps st]
      by (cases "get_want_authentication_policy_server aps st")
         (auto simp: get_want_def check_return_status_def)
  qed
qed

lemma get_want_returned:
  assumes "checked (get_want (Some aps) st) = Returned st2"
    and "dget (params aps) ''server_ip_address'' \<noteq> PNone"
  shows "\<exists>w. want_auth st2 = Some w"
proof -
  have ne: "\<not> is_empty_dict aps"
    using assms(2) by (auto simp: is_empty_dict_def dget_def)
  show ?thesis
  proof (cases "get_want_authentication_policy_server aps st")
    case (Returned s)
    show ?thesis
    proof (cases "status s = ''failed''")
      case True
      then show ?thesis using assms(1) ne Returned
        by (simp add: get_want_def check_return_status_def)
    next
      case False
      from get_want_aps_returned [OF Returned False] obtain w where "want_auth s = Some w" by blast
      then show ?thesis using assms(1) ne Returned False
        by (auto simp: get_want_def check_return_status_def)
    qed
  next
    case (Exited s)
    then show ?thesis using assms(1) ne by (simp add: get_want_def)
  next
    case (Crashed e s)
    then show ?thesis using assms(1) ne by (simp add: get_want_def)
  next
    case (Unfinished s)
    then show ?thesis using assms(1) ne by (simp add: get_want_def)
  qed
qed

lemma get_diff_merged_new:
  assumes "have_auth st = Some hv" and "\<not> exists hv" and "want_auth st = Some w"
  shows "get_diff_merged cmp env (Some aps) st
           = create_auth_policy_server env (dget (params aps) ''server_ip_address'') w
               (st\<lparr>result_response := (result_response st)
                      (dget (params aps) ''server_ip_address'' \<mapsto> empty_entry)\<rparr>)"
  using assms by (simp add: get_diff_merged_def update_auth_policy_server_def Let_def)

lemma merged_new_sends_add:
  assumes "have_auth st = Some hv" and "\<not> exists hv" and "want_auth st = Some w"
  shows "\<exists>evs. events (final (get_diff_merged cmp env (Some aps) st)) = events st @ Add_call w # evs
           \<and> list_all (\<lambda>e. \<not> mutating e) evs"
  unfolding get_diff_merged_new [OF assms]
  using create_grows [where env = env and ip = "dget (params aps) ''server_ip_address''" and w = w
      and st = "st\<lparr>result_response := (result_response st)
                      (dget (params aps) ''server_ip_address'' \<mapsto> empty_entry)\<rparr>"]
  by simp

lemma merged_existing_sends:
  assumes h: "have_auth st = Some hv" and ex: "exists hv" and w: "want_auth st = Some w"
  shows "(details hv = None \<longrightarrow> events (final (get_diff_merged cmp env (Some aps) st)) = events st)
       \<and> (\<forall>d. details hv = Some d \<longrightarrow>
             (if status (format_payload_for_update d w st) \<noteq> ''failed''
                 \<and> (truthy (dget (d_fields d) ''isIseEnabled'')
                      \<or> requires_update cmp (d_fields d) (scalars w)
                           authentication_policy_server_obj_params)
              then \<exists>w1 evs. events (final (get_diff_merged cmp env (Some aps) st))
                               = events st @ Edit_call w1 (server_id hv) # evs
                     \<and> list_all (\<lambda>e. \<not> mutating e) evs
              else events (final (get_diff_merged cmp env (Some aps) st)) = events st))"
proof (intro conjI allI impI)
  assume "details hv = None"
  then show "events (final (get_diff_merged cmp env (Some aps) st)) = events st"
    unfolding get_diff_merged_existing [OF h ex w]
    by (simp add: edit_auth_policy_server_def)
next
  fix d assume d: "details hv = Some d"
  let ?ip = "dget (params aps) ''server_ip_address''"
  let ?st0 = "st\<lparr>result_response := (result_response st)(?ip \<mapsto> empty_entry)\<rparr>"
  let ?st1 = "format_payload_for_update d w ?st0"
  let ?w1 = "w\<lparr>scalars := snd (format_update_params (d_fields d) (scalars w) update_params)\<rparr>"
  let ?out = "get_diff_merged cmp env (Some aps) st"
  let ?req = "requires_update cmp (d_fields d) (scalars w) authentication_policy_server_obj_params"
  have out: "?out = edit_auth_policy_server cmp env ?ip hv w ?st0"
    by (rule get_diff_merged_existing [OF h ex w])
  have s: "status ?st1 = status (format_payload_for_update d w st)"
    by (rule format_status_indep)
  have w1: "want_auth ?st1 = Some ?w1" by (rule format_payload_want)
  have req: "requires_update cmp (d_fields d) (scalars ?w1)
               authentication_policy_server_obj_params = ?req"
    using requires_update_after_format [of cmp d w] by simp
  show "if status (format_payload_for_update d w st) \<noteq> ''failed''
                 \<and> (truthy (dget (d_fields d) ''isIseEnabled'') \<or> ?req)
        then \<exists>w1 evs. events (final ?out) = events st @ Edit_call w1 (server_id hv) # evs
                     \<and> list_all (\<lambda>e. \<not> mutating e) evs
        else events (final ?out) = events st"
  proof (cases "status (format_payload_for_update d w st) = ''failed''")
    case True
    then show ?thesis
      using edit_rejected [OF d, of w ?st0] s out by (simp add: format_payload_events)
  next
    case ok: False
    show ?thesis
    proof (cases "truthy (dget (d_fields d) ''isIseEnabled'') \<or> ?req")
      case False
      then show ?thesis
        using edit_noop [OF d _ w1, of cmp env ?ip] ok s out req
        by (simp add: format_payload_events)
    next
      case True
      from edit_sent [OF d _ w1, of cmp env ?ip] ok s req True
      obtain evs where "events (final ?out) = events st @ Edit_call ?w1 (server_id hv) # evs"
        "list_all (\<lambda>e. \<not> mutating e) evs"
        unfolding out by (auto simp: format_payload_events)
      then show ?thesis using ok True by auto
    qed
  qed
qed

lemma deleted_sends:
  assumes "have_auth st = Some hv"
  shows "events (final (checked (get_diff_deleted env (Some aps) st)))
           = (if exists hv then events st @ [Delete_call (server_id hv)] else events st)"
  using assms
  by (auto simp: get_diff_deleted_def delete_auth_policy_server_def check_return_status_def
        check_task_response_status_def emit_def set_result_msg_def split: option.splits)

lemma calls_of_grows:
  "events (final out) = events st @ evs \<Longrightarrow> filter mutating (new_events st out) = filter mutating evs"
  by (simp add: new_events_def)

lemma calls_without_config: "config_calls cmp env state None st = []"
proof -
  obtain st1 where g: "checked (get_have env None (reset_values st)) = Returned st1"
    "events st1 = events st"
    using get_have_without_config by blast
  have "events (final (process_config cmp env state None st)) = events st @ []"
    using g
    by (cases state)
       (simp_all add: process_config_def get_want_def get_diff_merged_def get_diff_deleted_def
          check_return_status_def)
  from calls_of_grows [OF this] show ?thesis by (simp add: config_calls_def)
qed

lemma calls_without_address:
  assumes "dget (params aps) ''server_ip_address'' = PNone"
  shows "config_calls cmp env state (Some aps) st = []"
proof -
  obtain st1 where g: "checked (get_have env (Some aps) (reset_values st)) = Exited st1"
    "events st1 = events st"
    using get_have_without_address [OF assms] by blast
  have "events (final (process_config cmp env state (Some aps) st)) = events st @ []"
    using g by (simp add: process_config_def)
  from calls_of_grows [OF this] show ?thesis by (simp add: config_calls_def)
qed

lemma calls_deleted:
  assumes "dget (params aps) ''server_ip_address'' \<noteq> PNone"
  shows "config_calls cmp env Deleted (Some aps) st
           = (if exists (current_server env) then [Delete_call (server_id (current_server env))] else [])"
proof -
  obtain st1 where g: "checked (get_have env (Some aps) (reset_values st)) = Returned st1"
    "events st1 = events st @ [Get_servers_call]" "have_auth st1 = Some (current_server env)"
    using get_have_with_address [OF assms] by blast
  have "events (final (process_config cmp env Deleted (Some aps) st))
          = events st @ (Get_servers_call #
              (if exists (current_server env) then [Delete_call (server_id (current_server env))] else []))"
    using g deleted_sends [OF g(3), of env aps] by (simp add: process_config_def)
  from calls_of_grows [OF this] show ?thesis by (simp add: config_calls_def mutating_def)
qed

lemma calls_merged:
  assumes ip: "dget (params aps) ''server_ip_address'' \<noteq> PNone"
    and g: "checked (get_have env (Some aps) (reset_values st)) = Returned st1"
  shows "((\<forall>st2. checked (get_want (Some aps) st1) \<noteq> Returned st2) \<longrightarrow>
            config_calls cmp env Merged (Some aps) st = [])
       \<and> (\<forall>st2. checked (get_want (Some aps) st1) = Returned st2 \<longrightarrow>
            (\<exists>w. want_auth st2 = Some w
               \<and> (if \<not> exists (current_server env)
                   then config_calls cmp env Merged (Some aps) st = [Add_call w]
                   else case details (current_server env) of
                          None \<Rightarrow> config_calls cmp env Merged (Some aps) st = []
                        | Some d \<Rightarrow>
                            if status (format_payload_for_update d w st2) \<noteq> ''failed''
                               \<and> (truthy (dget (d_fields d) ''isIseEnabled'')
                                    \<or> requires_update cmp (d_fields d) (scalars w)
                                         authentication_policy_server_obj_params)
                            then \<exists>w1. config_calls cmp env Merged (Some aps) st
                                        = [Edit_call w1 (server_id (current_server env))]
                            else config_calls cmp env Merged (Some aps) st = [])))"
proof -
  from get_have_with_address [OF ip, of env st] g have
    e1: "events st1 = events st @ [Get_servers_call]" and h1: "have_auth st1 = Some (current_server env)"
    by auto
  let ?g = "checked (get_want (Some aps) st1)"
  have fr: "events (final ?g) = events st1" "have_auth (final ?g) = have_auth st1"
    using get_want_frame [of "Some aps" st1] by simp_all
  have p: "process_config cmp env Merged (Some aps) st
             = go_on ?g (\<lambda>st2. checked (get_diff_merged cmp env (Some aps) st2))"
    using g by (simp add: process_config_def)
  show ?thesis
  proof (intro conjI allI impI)
    assume n: "\<forall>st2. ?g \<noteq> Returned st2"
    then have "go_on ?g (\<lambda>st2. checked (get_diff_merged cmp env (Some aps) st2)) = ?g"
      by (cases ?g) auto
    then have "events (final (process_config cmp env Merged (Some aps) st))
                 = events st @ [Get_servers_call]"
      using p fr e1 by simp
    from calls_of_grows [OF this] show "config_calls cmp env Merged (Some aps) st = []"
      by (simp add: config_calls_def mutating_def)
  next
    fix st2 assume r: "?g = Returned st2"
    from get_want_returned [OF r ip] obtain w where w: "want_auth st2 = Some w" by blast
    have e2: "events st2 = events st @ [Get_servers_call]"
      and h2: "have_auth st2 = Some (current_server env)"
      using fr r e1 h1 by simp_all
    let ?out = "get_diff_merged cmp env (Some aps) st2"
    have pc: "events (final (process_config cmp env Merged (Some aps) st)) = events (final ?out)"
      using p r by simp
    have calls: "config_calls cmp env Merged (Some aps) st = filter mutating evs"
      if "events (final ?out) = events st2 @ evs" for evs
    proof -
      have "events (final (process_config cmp env Merged (Some aps) st))
              = events st @ (Get_servers_call # evs)"
        using pc that e2 by simp
      from calls_of_grows [OF this] show ?thesis by (simp add: config_calls_def mutating_def)
    qed
    have body: "if \<not> exists (current_server env)
                   then config_calls cmp env Merged (Some aps) st = [Add_call w]
                   else case details (current_server env) of
                          None \<Rightarrow> config_calls cmp env Merged (Some aps) st = []
                        | Some d \<Rightarrow>
                            if status (format_payload_for_update d w st2) \<noteq> ''failed''
                               \<and> (truthy (dget (d_fields d) ''isIseEnabled'')
                                    \<or> requires_update cmp (d_fields d) (scalars w)
                                         authentication_policy_server_obj_params)
                            then \<exists>w1. config_calls cmp env Merged (Some aps) st
                                        = [Edit_call w1 (server_id (current_server env))]
                            else config_calls cmp env Merged (Some aps) st = []"
    proof (cases "exists (current_server env)")
      case False
      from merged_new_sends_add [OF h2 False w, of cmp env aps] obtain evs where
        "events (final ?out) = events st2 @ Add_call w # evs" "list_all (\<lambda>e. \<not> mutating e) evs"
        by blast
      then show ?thesis using False calls [of "Add_call w # evs"] quiet_filter [of evs]
        by (simp add: mutating_def)
    next
      case True
      note m = merged_existing_sends [OF h2 True w, of cmp env aps]
      show ?thesis
      proof (cases "details (current_server env)")
        case None
        then have "events (final ?out) = events st2 @ []" using m by simp
        from calls [OF this] show ?thesis using True None by simp
      next
        case (Some d)
        show ?thesis
        proof (cases "status (format_payload_for_update d w st2) \<noteq> ''failed''
                       \<and> (truthy (dget (d_fields d) ''isIseEnabled'')
                            \<or> requires_update cmp (d_fields d) (scalars w)
                                 authentication_policy_server_obj_params)")
          case c: True
          then obtain w1 evs where
            "events (final ?out) = events st2 @ Edit_call w1 (server_id (current_server env)) # evs"
            "list_all (\<lambda>e. \<not> mutating e) evs"
            using m Some by auto
          then have "config_calls cmp env Merged (Some aps) st
                       = [Edit_call w1 (server_id (current_server env))]"
            using calls [of "Edit_call w1 (server_id (current_server env)) # evs"] quiet_filter [of evs]
            by (simp add: mutating_def)
          then show ?thesis using True Some c by auto
        next
          case c: False
          then have "events (final ?out) = events st2 @ []" using m Some by auto
          from calls [OF this] show ?thesis using True Some c by simp
        qed
      qed
    qed
    show "\<exists>w. want_auth st2 = Some w
               \<and> (if \<not> exists (current_server env)
                   then config_calls cmp env Merged (Some aps) st = [Add_call w]
                   else case details (current_server env) of
                          None \<Rightarrow> config_calls cmp env Merged (Some aps) st = []
                        | Some d \<Rightarrow>
                            if status (format_payload_for_update d w st2) \<noteq> ''failed''
                               \<and> (truthy (dget (d_fields d) ''isIseEnabled'')
                                    \<or> requires_update cmp (d_fields d) (scalars w)
                                         authentication_policy_server_obj_params)
                            then \<exists>w1. config_calls cmp env Merged (Some aps) st
                                        = [Edit_call w1 (server_id (current_server env))]
                            else config_calls cmp env Merged (Some aps) st = [])"
      using w body by blast
  qed
qed

lemmas element_defs = config_calls_def new_events_def process_config_def get_have_def
  get_have_authentication_policy_server_def reset_values_def check_return_status_def emit_def
  get_want_def is_empty_dict_def fail_with_def want_done_def mutating_def

text \<open>
  C6, as the claim states it, fails in two ways. With state \<^verbatim>\<open>merged\<close>, no server at the
  address and a playbook entry that gives only the address, \<^verbatim>\<open>get_want\<close> fails on the
  missing \<^verbatim>\<open>shared_secret\<close> and the element sends no create call. With state
  \<^verbatim>\<open>merged\<close>, an existing server of protocol \<^verbatim>\<open>RADIUS\<close> and the desired protocol
  \<^verbatim>\<open>TACACS\<close>, \<^verbatim>\<open>requires_update\<close> holds of the current details and the desired payload
  (by Python's equality taken for \<^verbatim>\<open>dnac_compare_equality\<close>), and the element sends no
  edit call: \<^verbatim>\<open>format_payload_for_update\<close> refuses the payload first.
\<close>

theorem merged_element_without_configuration_call:
  "\<not> exists (current_server quiet_env)
   \<and> config_calls py_eq quiet_env Merged (Some address_only_entry) start_state = []
   \<and> exists (current_server radius_env)
   \<and> want_auth (final (checked (get_want (Some (protocol_entry ''TACACS''))
        (final (checked (get_have radius_env (Some (protocol_entry ''TACACS''))
                  (reset_values start_state)))))))
       = Some (existing_want False ''TACACS'' ''3'')
   \<and> requires_update py_eq (d_fields radius_details) (scalars (existing_want False ''TACACS'' ''3''))
        authentication_policy_server_obj_params
   \<and> config_calls py_eq radius_env Merged (Some (protocol_entry ''TACACS'')) start_state = []"
proof -
  have a: "\<not> exists (current_server quiet_env)" "exists (current_server radius_env)"
    by (simp_all add: radius_env_def concrete_defs)
  have b: "config_calls py_eq quiet_env Merged (Some address_only_entry) start_state = []"
    by (simp add: element_defs want_defs concrete_defs)
  have c: "want_auth (final (checked (get_want (Some (protocol_entry ''TACACS''))
        (final (checked (get_have radius_env (Some (protocol_entry ''TACACS''))
                  (reset_values start_state)))))))
       = Some (existing_want False ''TACACS'' ''3'')"
    by (simp add: element_defs want_defs concrete_defs radius_env_def)
  have d: "requires_update py_eq (d_fields radius_details) (scalars (existing_want False ''TACACS'' ''3''))
        authentication_policy_server_obj_params"
    by (simp add: concrete_defs requires_update_def authentication_policy_server_obj_params_def
          get_obj_params_def dget_def)
  have e: "config_calls py_eq radius_env Merged (Some (protocol_entry ''TACACS'')) start_state = []"
    by (simp add: element_defs want_defs concrete_defs radius_env_def get_diff_merged_def
          update_auth_policy_server_def edit_auth_policy_server_def format_payload_for_update_def
          update_params_def)
  show ?thesis using a b c d e by blast
qed

text \<open>
  C6, amended. The processing of one element sends at most one of the three
  configuration calls. It sends the create call exactly when the state is \<^verbatim>\<open>merged\<close>,
  \<^verbatim>\<open>get_have\<close> and \<^verbatim>\<open>get_want\<close> pass \<^verbatim>\<open>check_return_status\<close> and the server does
  not exist. It sends the edit call exactly when the state is \<^verbatim>\<open>merged\<close>, both pass,
  the server exists with its details, \<^verbatim>\<open>format_payload_for_update\<close> accepts the desired
  payload, and the current details report \<^verbatim>\<open>isIseEnabled\<close> or \<^verbatim>\<open>requires_update\<close> finds
  a difference. It sends the delete call exactly when the state is \<^verbatim>\<open>deleted\<close>,
  \<^verbatim>\<open>get_have\<close> passes and the server exists.
\<close>

theorem one_configuration_call_per_element:
  "length (config_calls dnac_compare_equality env state config st) \<le> 1
   \<and> (list_ex is_add (config_calls dnac_compare_equality env state config st) \<longleftrightarrow>
        state = Merged
        \<and> (\<exists>aps st1 st2. config = Some aps
              \<and> checked (get_have env config (reset_values st)) = Returned st1
              \<and> checked (get_want config st1) = Returned st2
              \<and> \<not> exists (current_server env)))
   \<and> (list_ex is_edit (config_calls dnac_compare_equality env state config st) \<longleftrightarrow>
        state = Merged
        \<and> (\<exists>aps st1 st2 d w. config = Some aps
              \<and> checked (get_have env config (reset_values st)) = Returned st1
              \<and> checked (get_want config st1) = Returned st2
              \<and> exists (current_server env)
              \<and> details (current_server env) = Some d
              \<and> want_auth st2 = Some w
              \<and> status (format_payload_for_update d w st2) \<noteq> ''failed''
              \<and> (truthy (dget (d_fields d) ''isIseEnabled'')
                   \<or> requires_update dnac_compare_equality (d_fields d) (scalars w)
                        authentication_policy_server_obj_params)))
   \<and> (list_ex is_delete (config_calls dnac_compare_equality env state config st) \<longleftrightarrow>
        state = Deleted
        \<and> (\<exists>aps st1. config = Some aps
              \<and> checked (get_have env config (reset_values st)) = Returned st1
              \<and> exists (current_server env)))"
proof -
  define calls where "calls = config_calls dnac_compare_equality env state config st"
  define A where "A \<longleftrightarrow> state = Merged
        \<and> (\<exists>aps st1 st2. config = Some aps
              \<and> checked (get_have env config (reset_values st)) = Returned st1
              \<and> checked (get_want config st1) = Returned st2
              \<and> \<not> exists (current_server env))"
  define B where "B \<longleftrightarrow> state = Merged
        \<and> (\<exists>aps st1 st2 d w. config = Some aps
              \<and> checked (get_have env config (reset_values st)) = Returned st1
              \<and> checked (get_want config st1) = Returned st2
              \<and> exists (current_server env)
              \<and> details (current_server env) = Some d
              \<and> want_auth st2 = Some w
              \<and> status (format_payload_for_update d w st2) \<noteq> ''failed''
              \<and> (truthy (dget (d_fields d) ''isIseEnabled'')
                   \<or> requires_update dnac_compare_equality (d_fields d) (scalars w)
                        authentication_policy_server_obj_params))"
  define C where "C \<longleftrightarrow> state = Deleted
        \<and> (\<exists>aps st1. config = Some aps
              \<and> checked (get_have env config (reset_values st)) = Returned st1
              \<and> exists (current_server env))"
  have main: "(A \<and> \<not> B \<and> \<not> C \<and> (\<exists>e. calls = [e] \<and> is_add e))
            \<or> (\<not> A \<and> B \<and> \<not> C \<and> (\<exists>e. calls = [e] \<and> is_edit e))
            \<or> (\<not> A \<and> \<not> B \<and> C \<and> (\<exists>e. calls = [e] \<and> is_delete e))
            \<or> (\<not> A \<and> \<not> B \<and> \<not> C \<and> calls = [])"
  proof (cases config)
    case None
    have "calls = []" unfolding calls_def None by (rule calls_without_config)
    moreover have "\<not> A" "\<not> B" "\<not> C" using None by (simp_all add: A_def B_def C_def)
    ultimately show ?thesis by simp
  next
    case (Some aps)
    show ?thesis
    proof (cases "dget (params aps) ''server_ip_address'' = PNone")
      case True
      have "calls = []" unfolding calls_def Some by (rule calls_without_address [OF True])
      moreover have "\<not> A" "\<not> B" "\<not> C"
        using Some get_have_without_address [OF True, of env st]
        by (auto simp: A_def B_def C_def)
      ultimately show ?thesis by simp
    next
      case ip: False
      from get_have_with_address [OF ip, of env st] obtain st1 where
        g: "checked (get_have env (Some aps) (reset_values st)) = Returned st1" by blast
      show ?thesis
      proof (cases state)
        case Deleted
        have c: "calls = (if exists (current_server env)
                          then [Delete_call (server_id (current_server env))] else [])"
          unfolding calls_def Some Deleted by (rule calls_deleted [OF ip])
        have "\<not> A" "\<not> B" using Deleted by (simp_all add: A_def B_def)
        moreover have "C \<longleftrightarrow> exists (current_server env)"
          using Deleted Some g by (auto simp: C_def)
        ultimately show ?thesis using c by auto
      next
        case Merged
        note cm = calls_merged [OF ip g, of dnac_compare_equality]
        have nC: "\<not> C" using Merged by (simp add: C_def)
        show ?thesis
        proof (cases "\<exists>st2. checked (get_want (Some aps) st1) = Returned st2")
          case False
          then have "calls = []" using cm unfolding calls_def Some Merged by blast
          moreover have "\<not> A" "\<not> B" using False Some g by (auto simp: A_def B_def)
          ultimately show ?thesis using nC by simp
        next
          case True
          then obtain st2 where r: "checked (get_want (Some aps) st1) = Returned st2" by blast
          from cm r obtain w where w: "want_auth st2 = Some w" and
            body: "if \<not> exists (current_server env)
                   then calls = [Add_call w]
                   else case details (current_server env) of
                          None \<Rightarrow> calls = []
                        | Some d \<Rightarrow>
                            if status (format_payload_for_update d w st2) \<noteq> ''failed''
                               \<and> (truthy (dget (d_fields d) ''isIseEnabled'')
                                    \<or> requires_update dnac_compare_equality (d_fields d) (scalars w)
                                         authentication_policy_server_obj_params)
                            then \<exists>w1. calls = [Edit_call w1 (server_id (current_server env))]
                            else calls = []"
            unfolding calls_def Some Merged by blast
          have A: "A \<longleftrightarrow> \<not> exists (current_server env)"
            using Merged Some g r by (auto simp: A_def)
          have B: "B \<longleftrightarrow> exists (current_server env)
                     \<and> (\<exists>d. details (current_server env) = Some d
                          \<and> status (format_payload_for_update d w st2) \<noteq> ''failed''
                          \<and> (truthy (dget (d_fields d) ''isIseEnabled'')
                               \<or> requires_update dnac_compare_equality (d_fields d) (scalars w)
                                    authentication_policy_server_obj_params))"
            using Merged Some g r w by (auto simp: B_def)
          show ?thesis
          proof (cases "exists (current_server env)")
            case False
            then show ?thesis using body A B nC by auto
          next
            case ex: True
            show ?thesis
            proof (cases "details (current_server env)")
              case None
              then show ?thesis using body A B nC ex by auto
            next
              case (Some d)
              then show ?thesis using body A B nC ex by (auto split: if_splits)
            qed
          qed
        qed
      qed
    qed
  qed
  have r: "length calls \<le> 1 \<and> (list_ex is_add calls \<longleftrightarrow> A)
           \<and> (list_ex is_edit calls \<longleftrightarrow> B) \<and> (list_ex is_delete calls \<longleftrightarrow> C)"
  proof -
    have x: "is_add e \<Longrightarrow> \<not> is_edit e \<and> \<not> is_delete e"
      "is_edit e \<Longrightarrow> \<not> is_delete e" for e
      by (cases e; simp)+
    show ?thesis using main x by auto
  qed
  show ?thesis using r unfolding calls_def A_def B_def C_def by blast
qed

theorem one_configuration_call_per_element_witness:
  "length (config_calls py_eq radius_env Deleted (Some address_only_entry) start_state) \<le> 1
   \<and> list_ex is_delete (config_calls py_eq radius_env Deleted (Some address_only_entry) start_state)
   \<and> \<not> list_ex is_add (config_calls py_eq radius_env Deleted (Some address_only_entry) start_state)
   \<and> \<not> list_ex is_edit (config_calls py_eq radius_env Deleted (Some address_only_entry) start_state)
   \<and> list_ex is_add
        (config_calls py_eq quiet_env Merged (Some (new_server_entry ''secret'' ''RADIUS'')) start_state)
   \<and> list_ex is_edit (config_calls py_eq radius_env Merged (Some retries_entry) start_state)"
proof -
  have del: "\<exists>aps st1. Some address_only_entry = Some aps
              \<and> checked (get_have radius_env (Some address_only_entry) (reset_values start_state)) = Returned st1
              \<and> exists (current_server radius_env)"
    by (simp add: element_defs concrete_defs radius_env_def dget_def)
  have add: "\<exists>aps st1 st2. Some (new_server_entry ''secret'' ''RADIUS'') = Some aps
              \<and> checked (get_have quiet_env (Some (new_server_entry ''secret'' ''RADIUS''))
                           (reset_values start_state)) = Returned st1
              \<and> checked (get_want (Some (new_server_entry ''secret'' ''RADIUS'')) st1) = Returned st2
              \<and> \<not> exists (current_server quiet_env)"
    by (simp add: element_defs want_defs concrete_defs new_server_entry_def)
  have edit: "\<exists>aps st1 st2 d w. Some retries_entry = Some aps
              \<and> checked (get_have radius_env (Some retries_entry) (reset_values start_state)) = Returned st1
              \<and> checked (get_want (Some retries_entry) st1) = Returned st2
              \<and> exists (current_server radius_env)
              \<and> details (current_server radius_env) = Some d
              \<and> want_auth st2 = Some w
              \<and> status (format_payload_for_update d w st2) \<noteq> ''failed''
              \<and> (truthy (dget (d_fields d) ''isIseEnabled'')
                   \<or> requires_update py_eq (d_fields d) (scalars w)
                        authentication_policy_server_obj_params)"
    by (simp add: element_defs want_defs concrete_defs radius_env_def retries_entry_def
          format_defs requires_update_def authentication_policy_server_obj_params_def
          get_obj_params_def)
  show ?thesis
    using del add edit
      one_configuration_call_per_element [of py_eq radius_env Deleted "Some address_only_entry" start_state]
      one_configuration_call_per_element [of py_eq quiet_env Merged
         "Some (new_server_entry ''secret'' ''RADIUS'')" start_state]
      one_configuration_call_per_element [of py_eq radius_env Merged "Some retries_entry" start_state]
    by blast
qed

subsection \<open>Polling the task\<close>

text \<open>
  When \<^verbatim>\<open>result['changed']\<close> is false at the start of the loop, the loop ends, if it
  ends, in one of three ways: a string of the validation set occurs in the lower-cased
  progress of a poll, a poll reports \<^verbatim>\<open>isError\<close>, or the elapsed time of a pass has
  reached \<^verbatim>\<open>max_timeout\<close>. It does not go on past a pass whose elapsed time has reached
  \<^verbatim>\<open>max_timeout\<close>.
\<close>

lemma match_validation_found:
  "match_validation vs p = Inr (Some v) \<Longrightarrow>
     v \<in> set vs \<and> (\<exists>s. p = PStr s \<and> str_in v (lower s))"
  by (induction vs p rule: match_validation.induct) (auto split: if_splits)

lemma match_validation_none:
  "match_validation vs p = Inr None \<Longrightarrow>
     vs = [] \<or> (\<exists>s. p = PStr s \<and> (\<forall>v \<in> set vs. \<not> str_in v (lower s)))"
  by (induction vs p rule: match_validation.induct) (auto split: if_splits)

lemma poll_task_finishes:
  "(el, td) \<in> set polls \<Longrightarrow> el \<ge> of_int (max_timeout st) \<Longrightarrow>
     poll_task task_id vs api_name polls st \<noteq> Unfinished st'"
proof (induction polls arbitrary: st)
  case Nil
  then show ?case by simp
next
  case (Cons p polls)
  obtain e t where p: "p = (e, t)" by (cases p)
  show ?case
  proof (cases "e \<ge> of_int (max_timeout st)")
    case True
    then show ?thesis by (simp add: p)
  next
    case False
    then have mem: "(el, td) \<in> set polls" using Cons.prems p by auto
    have ih: "poll_task task_id vs api_name polls s \<noteq> Unfinished st'"
      if "max_timeout s = max_timeout st" for s
      using Cons.IH [OF mem, of s] Cons.prems(2) that by simp
    show ?thesis
      using False ih
      by (auto simp: p emit_def Let_def split: option.splits sum.splits)
  qed
qed

lemma poll_task_three_outcomes:
  assumes "\<not> changed st" and "poll_task task_id vs api_name polls st = Returned st'"
  shows "(status st' = ''success'' \<and> changed st'
          \<and> validation_string st' \<in> set vs
          \<and> (\<exists>el td s. (el, Some td) \<in> set polls \<and> dget td ''progress'' = PStr s
                \<and> str_in (validation_string st') (lower s)))
       \<or> (status st' = ''failed'' \<and> \<not> changed st'
          \<and> (\<exists>el td. (el, Some td) \<in> set polls \<and> dget td ''isError'' = PBool True
                \<and> msg st' = PStr (if truthy (dget td ''failureReason'')
                                   then py_str (dget td ''failureReason'')
                                   else py_str (dget td ''progress''))))
       \<or> (status st' = ''failed'' \<and> \<not> changed st'
          \<and> (\<exists>el td. (el, td) \<in> set polls \<and> el \<ge> of_int (max_timeout st)
                \<and> msg st' = PStr (''Max timeout of '' @ str_int (max_timeout st) @
                                   '' sec has reached for the execution id '' @
                                   quoted (py_str task_id) @ ''.'' @
                                   ''Exiting the loop due to unexpected API '' @
                                   quoted api_name @ '' status.'')))"
  using assms
proof (induction polls arbitrary: st)
  case Nil
  then show ?case by simp
next
  case (Cons p polls)
  obtain e t where p: "p = (e, t)" by (cases p)
  show ?case
  proof (cases "e \<ge> of_int (max_timeout st)")
    case True
    then have "st' = st\<lparr>msg := PStr (''Max timeout of '' @ str_int (max_timeout st) @
                                   '' sec has reached for the execution id '' @
                                   quoted (py_str task_id) @ ''.'' @
                                   ''Exiting the loop due to unexpected API '' @
                                   quoted api_name @ '' status.''),
                               status := ''failed''\<rparr>"
      using Cons.prems(2) by (simp add: p)
    then have "status st' = ''failed'' \<and> \<not> changed st'
          \<and> (e, t) \<in> set (p # polls) \<and> e \<ge> of_int (max_timeout st)
                \<and> msg st' = PStr (''Max timeout of '' @ str_int (max_timeout st) @
                                   '' sec has reached for the execution id '' @
                                   quoted (py_str task_id) @ ''.'' @
                                   ''Exiting the loop due to unexpected API '' @
                                   quoted api_name @ '' status.'')"
      using True Cons.prems(1) by (simp add: p)
    then show ?thesis by blast
  next
    case notime: False
    show ?thesis
    proof (cases t)
      case None
      then show ?thesis using Cons.prems(2) notime by (simp add: p)
    next
      case (Some td)
      show ?thesis
      proof (cases "dget td ''isError'' = PBool True")
        case True
        then have "st' = st\<lparr>msg := PStr (if truthy (dget td ''failureReason'')
                                                   then py_str (dget td ''failureReason'')
                                                   else py_str (dget td ''progress'')),
                                      status := ''failed''\<rparr>"
          using Cons.prems(2) notime Some by (simp add: p)
        then have "status st' = ''failed'' \<and> \<not> changed st'
          \<and> (e, Some td) \<in> set (p # polls) \<and> dget td ''isError'' = PBool True
                \<and> msg st' = PStr (if truthy (dget td ''failureReason'')
                                   then py_str (dget td ''failureReason'')
                                   else py_str (dget td ''progress''))"
          using True Cons.prems(1) Some by (simp add: p)
        then show ?thesis by blast
      next
        case noerr: False
        show ?thesis
        proof (cases "match_validation vs (dget td ''progress'')")
          case (Inl x)
          then show ?thesis using Cons.prems(2) notime Some noerr by (simp add: p)
        next
          case (Inr found)
          show ?thesis
          proof (cases found)
            case None
            let ?s = "emit (Sleep_task (max_timeout st)) st"
            have r: "poll_task task_id vs api_name polls ?s = Returned st'"
              using Cons.prems notime Some noerr Inr None
              by (simp add: p split: if_splits)
            have c: "\<not> changed ?s" using Cons.prems(1) by (simp add: emit_def)
            have m: "max_timeout ?s = max_timeout st" by (simp add: emit_def)
            have sub: "x \<in> set polls \<Longrightarrow> x \<in> set (p # polls)" for x by simp
            from Cons.IH [OF c r] show ?thesis unfolding m
              by (elim disjE conjE exE) (use sub in blast)+
          next
            case (Some v)
            with Inr have st': "st' = st\<lparr>changed := True, validation_string := v,
                                       status := ''success''\<rparr>"
              using Cons.prems(2) notime \<open>t = Some td\<close> noerr by (simp add: p)
            from match_validation_found [of vs "dget td ''progress''" v] Inr Some
            obtain s where "v \<in> set vs" "dget td ''progress'' = PStr s" "str_in v (lower s)"
              by blast
            then have "status st' = ''success'' \<and> changed st'
              \<and> validation_string st' \<in> set vs
              \<and> (e, Some td) \<in> set (p # polls) \<and> dget td ''progress'' = PStr s
                \<and> str_in (validation_string st') (lower s)"
              using st' \<open>t = Some td\<close> by (simp add: p)
            then show ?thesis by blast
          qed
        qed
      qed
    qed
  qed
qed

lemma match_pending:
  "match_validation [''successfully created aaa settings'', ''operation sucessful'']
     (PStr ''creating aaa settings'') = Inr None"
  by code_simp

lemma match_created:
  "match_validation [''successfully created aaa settings'', ''operation sucessful'']
     (PStr ''successfully created aaa settings'') = Inr (Some ''successfully created aaa settings'')"
  by code_simp

lemmas run_defs = process_config_def get_have_def get_have_authentication_policy_server_def
  reset_values_def check_return_status_def emit_def get_want_def is_empty_dict_def fail_with_def
  want_done_def get_diff_merged_def update_auth_policy_server_def create_auth_policy_server_def
  check_auth_server_response_status_def set_result_msg_def update_entry_def

text \<open>
  C2. The code diverges from the claim when \<^verbatim>\<open>result['changed']\<close> is already true at the
  start of the loop, as it is after an earlier element of the playbook has created a
  server: the test of line 1216 reads the flag of the whole run, not the outcome of the
  \<^verbatim>\<open>for\<close> above it. The task of the second creation answers no error code, its first
  poll comes before the timeout, reports no error and has a progress in which no string
  of the validation set occurs; the loop ends at this poll without sleeping, the status
  stays \<^verbatim>\<open>success\<close>, and the run of the two elements reports the second server as
  created.
\<close>

theorem stale_changed_ends_polling:
  "task_polls pending_env = [(0, Some pending_task)]
   \<and> add_response pending_env = Some [''taskId'' \<mapsto> PStr ''task-2'']
   \<and> (0 :: rat) < of_int (max_timeout start_state)
   \<and> dget pending_task ''isError'' \<noteq> PBool True
   \<and> match_validation create_strings (dget pending_task ''progress'') = Inr None
   \<and> check_auth_server_response_status pending_env (add_response pending_env) create_strings
         ''add_authentication_and_policy_server_access_configuration''
         (start_state\<lparr>changed := True\<rparr>)
       = Returned (start_state\<lparr>changed := True\<rparr>)
   \<and> status (start_state\<lparr>changed := True\<rparr>) = ''success''
   \<and> process_configs py_eq Merged two_servers start_state
       = Returned (final (process_configs py_eq Merged two_servers start_state))
   \<and> map is_add (events (final (process_configs py_eq Merged two_servers start_state)))
       = [False, True, False, True]
   \<and> status (final (process_configs py_eq Merged two_servers start_state)) = ''success''
   \<and> result_msg (final (process_configs py_eq Merged two_servers start_state)) (PStr ''10.0.0.3'')
       = Some ''Authentication and Policy Server Created Successfully''"
proof -
  have a: "task_polls pending_env = [(0, Some pending_task)]"
    "add_response pending_env = Some [''taskId'' \<mapsto> PStr ''task-2'']"
    "(0 :: rat) < of_int (max_timeout start_state)"
    "dget pending_task ''isError'' \<noteq> PBool True"
    "status (start_state\<lparr>changed := True\<rparr>) = ''success''"
    by (simp_all add: pending_env_def pending_task_def start_state_def dget_def quiet_env_def)
  have b: "match_validation create_strings (dget pending_task ''progress'') = Inr None"
    using match_pending by (simp add: create_strings_def pending_task_def dget_def)
  have c: "check_auth_server_response_status pending_env (add_response pending_env) create_strings
         ''add_authentication_and_policy_server_access_configuration''
         (start_state\<lparr>changed := True\<rparr>)
       = Returned (start_state\<lparr>changed := True\<rparr>)"
    by (simp add: check_auth_server_response_status_def pending_env_def pending_task_def
          quiet_env_def dget_def match_pending start_state_def create_strings_def
          del: match_validation.simps)
  have d: "process_configs py_eq Merged two_servers start_state
       = Returned (final (process_configs py_eq Merged two_servers start_state))
   \<and> map is_add (events (final (process_configs py_eq Merged two_servers start_state)))
       = [False, True, False, True]
   \<and> status (final (process_configs py_eq Merged two_servers start_state)) = ''success''
   \<and> result_msg (final (process_configs py_eq Merged two_servers start_state)) (PStr ''10.0.0.3'')
       = Some ''Authentication and Policy Server Created Successfully''"
    by (simp add: two_servers_def run_defs want_defs created_env_def pending_env_def
          pending_task_def quiet_env_def absent_server_def start_state_def
          new_server_entry_def other_server_entry_def match_pending match_created
          del: match_validation.simps)
  show ?thesis using a b c d by blast
qed

end
